theory Spec2Isabelle
  imports Main "HOL-Library.Sublist"
begin

section \<open>The administrative router of the incremental-ingestion module\<close>

text \<open>
  A shallow embedding of \<^verbatim>\<open>router/routes.ts\<close>
  (class \<^verbatim>\<open>IncrementalProviderRouter\<close>). Every route handler registered by
  \<^verbatim>\<open>createRouter\<close> becomes a function from the state of the collaborators to
  the reply of the handler and the new state. The database manager and the event
  broker are interfaces whose implementations live in other files; they are
  parameters of the model. The JSON body parser and the error-handling middleware
  are library code: a request arrives with its parsed body, and the error of a
  rejected handler is kept in the reply.
\<close>

subsection \<open>JavaScript values\<close>

text \<open>
  The objects handed to \<^verbatim>\<open>res.json\<close> and to the manager are object literals.
  An object is a list of key/value pairs in the order in which the literal lists them.
  A \<^verbatim>\<open>Date\<close> is its time value in milliseconds since the epoch.
\<close>

datatype jsval =
    JUndefined
  | JNull
  | JBool bool
  | JNum int
  | JStr string
  | JDate int
  | JArr "jsval list"
  | JObj "(string \<times> jsval) list"

text \<open>Property access \<^verbatim>\<open>o.k\<close>: a key that the object lacks reads as \<^verbatim>\<open>undefined\<close>.\<close>

fun field :: "jsval \<Rightarrow> string \<Rightarrow> jsval" where
  "field (JObj kvs) k = (case map_of kvs k of Some v \<Rightarrow> v | None \<Rightarrow> JUndefined)"
| "field _ k = JUndefined"

text \<open>The own keys of an object, in order (\<^verbatim>\<open>Object.keys\<close>).\<close>

fun keys :: "jsval \<Rightarrow> string list" where
  "keys (JObj kvs) = map fst kvs"
| "keys _ = []"

text \<open>A thrown value: an \<^verbatim>\<open>Error\<close> with its name and its message.\<close>

datatype error = Error (name: string) (message: string)

text \<open>The outcome of an awaited promise.\<close>

datatype 'a result = Resolved 'a | Rejected error

subsection \<open>Array helpers used by the health route\<close>

text \<open>\<^verbatim>\<open>a.indexOf(e)\<close>: the first index holding \<^verbatim>\<open>e\<close>, or \<^verbatim>\<open>-1\<close>.\<close>

fun indexOf :: "'a list \<Rightarrow> 'a \<Rightarrow> int" where
  "indexOf [] e = - 1"
| "indexOf (x # xs) e =
     (if x = e then 0
      else (let i = indexOf xs e in if i = - 1 then - 1 else i + 1))"

text \<open>\<^verbatim>\<open>a.filter((e, i, a) => ...)\<close>: the callback sees the element, its index and the array.\<close>

definition filter_js :: "('a \<Rightarrow> nat \<Rightarrow> 'a list \<Rightarrow> bool) \<Rightarrow> 'a list \<Rightarrow> 'a list" where
  "filter_js f a = map fst (filter (\<lambda>(e, i). f e i a) (zip a [0..<length a]))"

text \<open>
  \<^verbatim>\<open>[...new Set(xs)]\<close>: a \<^verbatim>\<open>Set\<close> keeps its elements in the order of their first
  insertion, and the spread reads them back in that order.
\<close>

definition set_add :: "'a list \<Rightarrow> 'a \<Rightarrow> 'a list" where
  "set_add s x = (if x \<in> set s then s else s @ [x])"

definition new_Set :: "'a list \<Rightarrow> 'a list" where
  "new_Set xs = foldl set_add [] xs"

subsection \<open>Ingestion records and the database manager\<close>

text \<open>
  Modelled from the spec: the type \<^verbatim>\<open>IngestionRecord\<close> is declared outside
  \<^verbatim>\<open>routes.ts\<close>; the fields are those of the data model (section 3), of which the
  router reads \<^verbatim>\<open>id\<close>, \<^verbatim>\<open>provider_name\<close>, \<^verbatim>\<open>status\<close>, \<^verbatim>\<open>next_action_at\<close> and
  \<^verbatim>\<open>last_error\<close>. The field \<^verbatim>\<open>id\<close> is called \<open>record_id\<close> here. The router compares
  \<^verbatim>\<open>status\<close> with a string literal, so it is a string. A record without an error has
  \<^verbatim>\<open>last_error\<close> \<^verbatim>\<open>null\<close>.
\<close>

record ingestion_record =
  record_id :: string
  provider_name :: string
  status :: string
  next_action :: string
  next_action_at :: int
  ingestion_completed_at :: "int option"
  last_error :: "string option"

text \<open>
  Modelled from the spec: \<^verbatim>\<open>IncrementalIngestionDatabaseManager\<close> is imported from
  \<^verbatim>\<open>../database\<close>; the router uses the eleven methods below. Every method is
  asynchronous and may reject. Sections 4.1 and 4.2 describe \<^verbatim>\<open>healthcheck\<close>,
  \<^verbatim>\<open>getCurrentIngestionRecord\<close>, \<^verbatim>\<open>listProviders\<close> and \<^verbatim>\<open>getAllMarks\<close> as
  queries: they read the store \<open>'db\<close> and leave it as it is. The other methods
  return the store they leave behind. What the manager returns from
  \<^verbatim>\<open>cleanupProviders\<close>, \<^verbatim>\<open>purgeAndResetProvider\<close>, \<^verbatim>\<open>getAllMarks\<close> and
  \<^verbatim>\<open>clearFinishedIngestions\<close> is passed to \<^verbatim>\<open>res.json\<close> untouched, so it is a
  \<open>jsval\<close>.
\<close>

record 'db manager =
  healthcheck :: "'db \<Rightarrow> ingestion_record list result"
  cleanupProviders :: "'db \<Rightarrow> jsval result \<times> 'db"
  getCurrentIngestionRecord :: "string \<Rightarrow> 'db \<Rightarrow> ingestion_record option result"
  listProviders :: "'db \<Rightarrow> string list result"
  triggerNextProviderAction :: "string \<Rightarrow> 'db \<Rightarrow> unit result \<times> 'db"
  setProviderComplete :: "string \<Rightarrow> 'db \<Rightarrow> unit result \<times> 'db"
  setProviderCanceling :: "string \<Rightarrow> 'db \<Rightarrow> unit result \<times> 'db"
  updateByName :: "string \<Rightarrow> jsval \<Rightarrow> 'db \<Rightarrow> unit result \<times> 'db"
  purgeAndResetProvider :: "string \<Rightarrow> 'db \<Rightarrow> jsval result \<times> 'db"
  getAllMarks :: "string \<Rightarrow> 'db \<Rightarrow> jsval result"
  clearFinishedIngestions :: "string \<Rightarrow> 'db \<Rightarrow> jsval result \<times> 'db"

subsection \<open>Replies\<close>

text \<open>
  \<^verbatim>\<open>res.status(c).json(b)\<close> sends the response; \<^verbatim>\<open>res.json(b)\<close> sends it with
  the default status 200. A handler whose promise rejects hands the error to the
  error-handling middleware. The messages given to the logger are kept in order.
\<close>

record response =
  statusCode :: nat
  body :: jsval

datatype level = LogError | LogDebug

record reply =
  sent :: "response option"
  thrown :: "error option"
  logged :: "(level \<times> string) list"

definition json :: "nat \<Rightarrow> jsval \<Rightarrow> reply" where
  "json c b = \<lparr>sent = Some \<lparr>statusCode = c, body = b\<rparr>, thrown = None, logged = []\<rparr>"

definition rejected :: "error \<Rightarrow> reply" where
  "rejected e = \<lparr>sent = None, thrown = Some e, logged = []\<rparr>"

definition logging :: "level \<Rightarrow> string \<Rightarrow> reply \<Rightarrow> reply" where
  "logging l msg r = r\<lparr>logged := (l, msg) # logged r\<rparr>"

subsection \<open>The handlers\<close>

text \<open>\<^verbatim>\<open>router.get(PROVIDER_HEALTH, ...)\<close>\<close>

definition duplicates_of :: "string list \<Rightarrow> string list" where
  "duplicates_of providers =
     new_Set (filter_js (\<lambda>e i a. indexOf a e \<noteq> int i) providers)"

definition get_health :: "'db manager \<Rightarrow> 'db \<Rightarrow> reply \<times> 'db" where
  "get_health m s =
     (case healthcheck m s of
        Rejected e \<Rightarrow> (rejected e, s)
      | Resolved records \<Rightarrow>
          (let providers = map provider_name records;
               duplicates = duplicates_of providers
           in if length duplicates > 0
              then (json 200 (JObj [(''healthy'', JBool False),
                                    (''duplicateIngestions'', JArr (map JStr duplicates))]), s)
              else (json 200 (JObj [(''healthy'', JBool True)]), s)))"

text \<open>\<^verbatim>\<open>router.post(PROVIDER_CLEANUP, ...)\<close>\<close>

definition post_cleanup :: "'db manager \<Rightarrow> 'db \<Rightarrow> reply \<times> 'db" where
  "post_cleanup m s =
     (case cleanupProviders m s of
        (Rejected e, s') \<Rightarrow> (rejected e, s')
      | (Resolved result, s') \<Rightarrow> (json 200 result, s'))"

text \<open>The apostrophe of the template literals \<^verbatim>\<open>`Provider '${provider}' not found`\<close>.\<close>

definition apos :: string where
  "apos = [CHR 0x27]"

text \<open>\<^verbatim>\<open>router.get(PROVIDER_BASE_PATH, ...)\<close>\<close>

definition get_provider :: "'db manager \<Rightarrow> string \<Rightarrow> 'db \<Rightarrow> reply \<times> 'db" where
  "get_provider m provider s =
     (case getCurrentIngestionRecord m provider s of
        Rejected e \<Rightarrow> (rejected e, s)
      | Resolved (Some record) \<Rightarrow>
          (json 200 (JObj [(''success'', JBool True),
                           (''status'', JObj [(''current_action'', JStr (status record)),
                                              (''next_action_at'', JDate (next_action_at record))]),
                           (''last_error'', (case last_error record of
                                               None \<Rightarrow> JNull | Some err \<Rightarrow> JStr err))]), s)
      | Resolved None \<Rightarrow>
          (case listProviders m s of
             Rejected e \<Rightarrow> (rejected e, s)
           | Resolved providers \<Rightarrow>
               if provider \<in> set providers
               then (json 200 (JObj [(''success'', JBool True),
                                     (''status'', JObj [(''current_action'',
                                                         JStr ''rest complete, waiting to start'')])]), s)
               else (logging LogError (provider @ '' - No ingestion record found in the database!'')
                       (json 404 (JObj [(''success'', JBool False),
                                        (''status'', JObj []),
                                        (''last_error'',
                                         JStr (''Provider '' @ apos @ provider @ apos @ '' not found''))])),
                     s)))"

text \<open>\<^verbatim>\<open>router.post(`${PROVIDER_BASE_PATH}/trigger`, ...)\<close>\<close>

definition post_trigger :: "'db manager \<Rightarrow> string \<Rightarrow> 'db \<Rightarrow> reply \<times> 'db" where
  "post_trigger m provider s =
     (case getCurrentIngestionRecord m provider s of
        Rejected e \<Rightarrow> (rejected e, s)
      | Resolved (Some record) \<Rightarrow>
          (case triggerNextProviderAction m provider s of
             (Rejected e, s') \<Rightarrow> (rejected e, s')
           | (Resolved u, s') \<Rightarrow>
               (json 200 (JObj [(''success'', JBool True),
                                (''message'', JStr (provider @ '': Next action triggered.''))]), s'))
      | Resolved None \<Rightarrow>
          (case listProviders m s of
             Rejected e \<Rightarrow> (rejected e, s)
           | Resolved providers \<Rightarrow>
               if provider \<in> set providers
               then (logging LogDebug (provider @ '' - Ingestion record found'')
                       (json 200 (JObj [(''success'', JBool True),
                                        (''message'',
                                         JStr ''Unable to trigger next action (provider is restarting)'')])),
                     s)
               else (json 404 (JObj [(''success'', JBool False),
                                     (''message'',
                                      JStr (''Provider '' @ apos @ provider @ apos @ '' not found''))]), s)))"

text \<open>\<^verbatim>\<open>router.post(`${PROVIDER_BASE_PATH}/start`, ...)\<close>\<close>

definition post_start :: "'db manager \<Rightarrow> string \<Rightarrow> 'db \<Rightarrow> reply \<times> 'db" where
  "post_start m provider s =
     (case getCurrentIngestionRecord m provider s of
        Rejected e \<Rightarrow> (rejected e, s)
      | Resolved (Some record) \<Rightarrow>
          (let ingestionId = record_id record
           in case (if status record = ''resting''
                    then setProviderComplete m ingestionId s
                    else setProviderCanceling m ingestionId s) of
                (Rejected e, s') \<Rightarrow> (rejected e, s')
              | (Resolved u, s') \<Rightarrow>
                  (json 200 (JObj [(''success'', JBool True),
                                   (''message'', JStr (provider @ '': Next cycle triggered.''))]), s'))
      | Resolved None \<Rightarrow>
          (case listProviders m s of
             Rejected e \<Rightarrow> (rejected e, s)
           | Resolved providers \<Rightarrow>
               if provider \<in> set providers
               then (logging LogDebug (provider @ '' - Ingestion record found'')
                       (json 200 (JObj [(''success'', JBool True),
                                        (''message'', JStr ''Provider is already restarting'')])),
                     s)
               else (json 404 (JObj [(''success'', JBool False),
                                     (''message'',
                                      JStr (''Provider '' @ apos @ provider @ apos @ '' not found''))]), s)))"

text \<open>
  \<^verbatim>\<open>router.post(`${PROVIDER_BASE_PATH}/cancel`, ...)\<close>

  The handler reads the clock twice: \<^verbatim>\<open>new Date()\<close> for \<^verbatim>\<open>next_action_at\<close>, which
  \<^verbatim>\<open>setTime\<close> then moves forward, and \<^verbatim>\<open>new Date()\<close> again inside the object literal
  for \<^verbatim>\<open>ingestion_completed_at\<close>. \<open>now k\<close> is the \<open>k\<close>-th reading of the clock by the
  request, in milliseconds.
\<close>

definition post_cancel :: "'db manager \<Rightarrow> (nat \<Rightarrow> int) \<Rightarrow> string \<Rightarrow> 'db \<Rightarrow> reply \<times> 'db" where
  "post_cancel m now provider s =
     (case getCurrentIngestionRecord m provider s of
        Rejected e \<Rightarrow> (rejected e, s)
      | Resolved (Some record) \<Rightarrow>
          (let next_action_at = now 0 + 24 * 60 * 60 * 1000
           in case updateByName m provider
                     (JObj [(''next_action'', JStr ''nothing (done)''),
                            (''ingestion_completed_at'', JDate (now 1)),
                            (''next_action_at'', JDate next_action_at),
                            (''status'', JStr ''resting'')]) s of
                (Rejected e, s') \<Rightarrow> (rejected e, s')
              | (Resolved u, s') \<Rightarrow>
                  (json 200 (JObj [(''success'', JBool True),
                                   (''message'', JStr (provider @ '': Current ingestion canceled.''))]), s'))
      | Resolved None \<Rightarrow>
          (case listProviders m s of
             Rejected e \<Rightarrow> (rejected e, s)
           | Resolved providers \<Rightarrow>
               if provider \<in> set providers
               then (logging LogDebug (provider @ '' - Ingestion record found'')
                       (json 200 (JObj [(''success'', JBool True),
                                        (''message'',
                                         JStr ''Provider is currently restarting, please wait.'')])),
                     s)
               else (json 404 (JObj [(''success'', JBool False),
                                     (''message'',
                                      JStr (''Provider '' @ apos @ provider @ apos @ '' not found''))]), s)))"

text \<open>\<^verbatim>\<open>router.delete(PROVIDER_BASE_PATH, ...)\<close>\<close>

definition delete_provider :: "'db manager \<Rightarrow> string \<Rightarrow> 'db \<Rightarrow> reply \<times> 'db" where
  "delete_provider m provider s =
     (case purgeAndResetProvider m provider s of
        (Rejected e, s') \<Rightarrow> (rejected e, s')
      | (Resolved result, s') \<Rightarrow> (json 200 result, s'))"

text \<open>\<^verbatim>\<open>router.get(`${PROVIDER_BASE_PATH}/marks`, ...)\<close>\<close>

definition get_marks :: "'db manager \<Rightarrow> string \<Rightarrow> 'db \<Rightarrow> reply \<times> 'db" where
  "get_marks m provider s =
     (case getCurrentIngestionRecord m provider s of
        Rejected e \<Rightarrow> (rejected e, s)
      | Resolved (Some record) \<Rightarrow>
          (let ident = record_id record
           in case getAllMarks m ident s of
                Rejected e \<Rightarrow> (rejected e, s)
              | Resolved records \<Rightarrow>
                  (json 200 (JObj [(''success'', JBool True), (''records'', records)]), s))
      | Resolved None \<Rightarrow>
          (case listProviders m s of
             Rejected e \<Rightarrow> (rejected e, s)
           | Resolved providers \<Rightarrow>
               if provider \<in> set providers
               then (logging LogDebug (provider @ '' - Ingestion record found'')
                       (json 200 (JObj [(''success'', JBool True),
                                        (''message'', JStr ''No records yet (provider is restarting)'')])),
                     s)
               else (logging LogError (provider @ '' - No ingestion record found in the database!'')
                       (json 404 (JObj [(''success'', JBool False),
                                        (''status'', JObj []),
                                        (''last_error'',
                                         JStr (''Provider '' @ apos @ provider @ apos @ '' not found''))])),
                     s)))"

text \<open>\<^verbatim>\<open>router.delete(`${PROVIDER_BASE_PATH}/marks`, ...)\<close>\<close>

definition delete_marks :: "'db manager \<Rightarrow> string \<Rightarrow> 'db \<Rightarrow> reply \<times> 'db" where
  "delete_marks m provider s =
     (case clearFinishedIngestions m provider s of
        (Rejected e, s') \<Rightarrow> (rejected e, s')
      | (Resolved deletions, s') \<Rightarrow>
          (json 200 (JObj [(''success'', JBool True),
                           (''message'',
                            JStr (''Expired marks for provider '' @ apos @ provider @ apos @ '' removed.'')),
                           (''deletions'', deletions)]), s'))"

text \<open>
  \<^verbatim>\<open>router.post(`${PROVIDER_BASE_PATH}/delta`, ...)\<close>

  The event broker is the field \<^verbatim>\<open>eventBroker\<close> of the router, \<^verbatim>\<open>undefined\<close> until
  \<^verbatim>\<open>setEventBroker\<close> is called. Its \<^verbatim>\<open>publish\<close> acts on the event bus \<open>'bus\<close> and may
  reject. Without a broker the handler sends its response and then throws.
  \<^verbatim>\<open>stringifyError\<close> is imported from another package and is a parameter.
\<close>

record event_params =
  topic :: string
  eventPayload :: jsval

type_synonym 'bus broker = "event_params \<Rightarrow> 'bus \<Rightarrow> unit result \<times> 'bus"

definition post_delta ::
  "(error \<Rightarrow> string) \<Rightarrow> 'bus broker option \<Rightarrow> string \<Rightarrow> jsval \<Rightarrow> 'bus \<Rightarrow> reply \<times> 'bus" where
  "post_delta stringifyError eventBroker provider req_body bus =
     (let topic = provider @ ''-push'';
          eventPayload = req_body
      in case eventBroker of
           None \<Rightarrow>
             ((json 500 (JObj [(''success'', JBool False),
                               (''provider'', JStr provider),
                               (''message'', JStr ''The payload could not be processed!'')]))
                \<lparr>thrown := Some (Error ''Error'' ''Event broker not initialized!'')\<rparr>,
              bus)
         | Some publish \<Rightarrow>
             (case publish \<lparr>topic = topic, eventPayload = eventPayload\<rparr> bus of
                (Resolved u, bus') \<Rightarrow>
                  (json 200 (JObj [(''success'', JBool True),
                                   (''provider'', JStr provider),
                                   (''message'', JStr ''Payload submitted.'')]), bus')
              | (Rejected e, bus') \<Rightarrow>
                  (json 500 (JObj [(''success'', JBool False),
                                   (''provider'', JStr provider),
                                   (''message'',
                                    JStr (''There was an error submitting the payload: ''
                                          @ stringifyError e))]), bus')))"

subsection \<open>The router object\<close>

text \<open>
  \<^verbatim>\<open>IncrementalProviderRouter\<close>: the constructor stores the manager and leaves
  \<^verbatim>\<open>eventBroker\<close> undefined; \<^verbatim>\<open>setEventBroker\<close> stores the broker.
\<close>

record ('db, 'bus) router =
  manager :: "'db manager"
  eventBroker :: "'bus broker option"

definition new_router :: "'db manager \<Rightarrow> ('db, 'bus) router" where
  "new_router m = \<lparr>manager = m, eventBroker = None\<rparr>"

definition setEventBroker :: "'bus broker \<Rightarrow> ('db, 'bus) router \<Rightarrow> ('db, 'bus) router" where
  "setEventBroker b r = r\<lparr>eventBroker := Some b\<rparr>"

text \<open>
  Modelled from the spec: the path constants \<^verbatim>\<open>PROVIDER_HEALTH\<close>, \<^verbatim>\<open>PROVIDER_CLEANUP\<close>
  and \<^verbatim>\<open>PROVIDER_BASE_PATH\<close> are imported from \<^verbatim>\<open>./paths\<close>; a request is one of
  the ten method/path pairs of section 6, with the provider of the path and, for
  \<^verbatim>\<open>delta\<close>, the parsed body.
\<close>

datatype request =
    GET_health
  | POST_cleanup
  | GET_provider string
  | POST_trigger string
  | POST_start string
  | POST_cancel string
  | DELETE_provider string
  | GET_marks string
  | DELETE_marks string
  | POST_delta string jsval

definition on_db :: "('db \<Rightarrow> reply \<times> 'db) \<Rightarrow> 'db \<times> 'bus \<Rightarrow> reply \<times> ('db \<times> 'bus)" where
  "on_db h w = (case h (fst w) of (r, s') \<Rightarrow> (r, (s', snd w)))"

definition on_bus :: "('bus \<Rightarrow> reply \<times> 'bus) \<Rightarrow> 'db \<times> 'bus \<Rightarrow> reply \<times> ('db \<times> 'bus)" where
  "on_bus h w = (case h (snd w) of (r, b') \<Rightarrow> (r, (fst w, b')))"

fun createRouter ::
  "(error \<Rightarrow> string) \<Rightarrow> (nat \<Rightarrow> int) \<Rightarrow> ('db, 'bus) router \<Rightarrow> request
     \<Rightarrow> 'db \<times> 'bus \<Rightarrow> reply \<times> ('db \<times> 'bus)" where
  "createRouter str now r GET_health = on_db (get_health (manager r))"
| "createRouter str now r POST_cleanup = on_db (post_cleanup (manager r))"
| "createRouter str now r (GET_provider p) = on_db (get_provider (manager r) p)"
| "createRouter str now r (POST_trigger p) = on_db (post_trigger (manager r) p)"
| "createRouter str now r (POST_start p) = on_db (post_start (manager r) p)"
| "createRouter str now r (POST_cancel p) = on_db (post_cancel (manager r) now p)"
| "createRouter str now r (DELETE_provider p) = on_db (delete_provider (manager r) p)"
| "createRouter str now r (GET_marks p) = on_db (get_marks (manager r) p)"
| "createRouter str now r (DELETE_marks p) = on_db (delete_marks (manager r) p)"
| "createRouter str now r (POST_delta p b) = on_bus (post_delta str (eventBroker r) p b)"

subsection \<open>Reading a reply\<close>

definition resp_status :: "reply \<Rightarrow> nat option" where
  "resp_status r = map_option statusCode (sent r)"

definition resp_body :: "reply \<Rightarrow> jsval" where
  "resp_body r = (case sent r of Some x \<Rightarrow> body x | None \<Rightarrow> JUndefined)"

subsection \<open>Observing the calls made on the manager\<close>

text \<open>
  To say which methods of the manager a handler calls, the manager is wrapped as a
  test spy would wrap it: every method that can change the store appends its name and
  arguments to a list kept beside the store; the queries pass through.
\<close>

datatype call =
    Call_cleanupProviders
  | Call_triggerNextProviderAction string
  | Call_setProviderComplete string
  | Call_setProviderCanceling string
  | Call_updateByName string jsval
  | Call_purgeAndResetProvider string
  | Call_clearFinishedIngestions string

definition noting :: "call \<Rightarrow> ('db \<Rightarrow> 'a result \<times> 'db) \<Rightarrow> 'db \<times> call list \<Rightarrow> 'a result \<times> ('db \<times> call list)" where
  "noting c f w = (case f (fst w) of (r, s') \<Rightarrow> (r, (s', snd w @ [c])))"

definition spy :: "'db manager \<Rightarrow> ('db \<times> call list) manager" where
  "spy m =
     \<lparr>healthcheck = (\<lambda>w. healthcheck m (fst w)),
      cleanupProviders = noting Call_cleanupProviders (cleanupProviders m),
      getCurrentIngestionRecord = (\<lambda>p w. getCurrentIngestionRecord m p (fst w)),
      listProviders = (\<lambda>w. listProviders m (fst w)),
      triggerNextProviderAction = (\<lambda>p. noting (Call_triggerNextProviderAction p) (triggerNextProviderAction m p)),
      setProviderComplete = (\<lambda>i. noting (Call_setProviderComplete i) (setProviderComplete m i)),
      setProviderCanceling = (\<lambda>i. noting (Call_setProviderCanceling i) (setProviderCanceling m i)),
      updateByName = (\<lambda>p u. noting (Call_updateByName p u) (updateByName m p u)),
      purgeAndResetProvider = (\<lambda>p. noting (Call_purgeAndResetProvider p) (purgeAndResetProvider m p)),
      getAllMarks = (\<lambda>i w. getAllMarks m i (fst w)),
      clearFinishedIngestions = (\<lambda>p. noting (Call_clearFinishedIngestions p) (clearFinishedIngestions m p))\<rparr>"

text \<open>
  A manager for concrete runs, as a unit test would stub it: the store counts the
  writes made so far; \<open>current\<close> lists the records that \<^verbatim>\<open>healthcheck\<close> and
  \<^verbatim>\<open>getCurrentIngestionRecord\<close> see, \<open>known\<close> is what \<^verbatim>\<open>listProviders\<close> returns,
  and \<open>marks\<close> is what \<^verbatim>\<open>getAllMarks\<close> returns for a record id.
\<close>

definition stub_manager ::
  "ingestion_record list \<Rightarrow> string list \<Rightarrow> (string \<Rightarrow> jsval) \<Rightarrow> nat manager" where
  "stub_manager current known marks =
     \<lparr>healthcheck = (\<lambda>n. Resolved current),
      cleanupProviders = (\<lambda>n. (Resolved (JObj []), Suc n)),
      getCurrentIngestionRecord = (\<lambda>p n. Resolved (find (\<lambda>r. provider_name r = p) current)),
      listProviders = (\<lambda>n. Resolved known),
      triggerNextProviderAction = (\<lambda>p n. (Resolved (), Suc n)),
      setProviderComplete = (\<lambda>i n. (Resolved (), Suc n)),
      setProviderCanceling = (\<lambda>i n. (Resolved (), Suc n)),
      updateByName = (\<lambda>p u n. (Resolved (), Suc n)),
      purgeAndResetProvider = (\<lambda>p n. (Resolved (JObj []), Suc n)),
      getAllMarks = (\<lambda>i n. Resolved (marks i)),
      clearFinishedIngestions = (\<lambda>p n. (Resolved (JNum 0), Suc n))\<rparr>"

definition sample_record :: "string \<Rightarrow> string \<Rightarrow> string \<Rightarrow> ingestion_record" where
  "sample_record i p st =
     \<lparr>record_id = i, provider_name = p, status = st, next_action = ''ingest'',
      next_action_at = 1000, ingestion_completed_at = None, last_error = None\<rparr>"

text \<open>The changing calls that \<^verbatim>\<open>POST /{provider}/start\<close> may make.\<close>

definition is_start_call :: "call \<Rightarrow> bool" where
  "is_start_call c =
     (case c of Call_setProviderComplete i \<Rightarrow> True
              | Call_setProviderCanceling i \<Rightarrow> True
              | _ \<Rightarrow> False)"

text \<open>A stubbed manager, its marks and a clock for concrete runs.\<close>

definition demo_mark :: "int \<Rightarrow> jsval" where
  "demo_mark n = JObj [(''ingestion_record_id'', JStr ''1''), (''sequence'', JNum n)]"

definition demo_marks :: "string \<Rightarrow> jsval" where
  "demo_marks i = (if i = ''1'' then JArr [demo_mark 0, demo_mark 1] else JArr [])"

definition demo_manager :: "nat manager" where
  "demo_manager =
     stub_manager [sample_record ''1'' ''foo'' ''ingesting'', sample_record ''2'' ''qux'' ''resting'']
       [''foo'', ''bar'', ''qux''] demo_marks"

definition demo_clock :: "nat \<Rightarrow> int" where
  "demo_clock k = 1700000000000 + int k"

text \<open>
  Modelled from the spec: a mark carries a numeric \<^verbatim>\<open>sequence\<close> (section 3). An array
  of marks is ascending by sequence when every element has one and they are sorted.
\<close>

definition mark_sequence :: "jsval \<Rightarrow> int option" where
  "mark_sequence mk = (case field mk ''sequence'' of JNum n \<Rightarrow> Some n | _ \<Rightarrow> None)"

definition ascending_by_sequence :: "jsval \<Rightarrow> bool" where
  "ascending_by_sequence v =
     (case v of
        JArr mks \<Rightarrow> (case those (map mark_sequence mks) of Some ns \<Rightarrow> sorted ns | None \<Rightarrow> False)
      | _ \<Rightarrow> False)"

text \<open>
  For concrete runs of the delta route: a rendering of errors in the manner of
  \<^verbatim>\<open>Error.prototype.toString\<close>, a broker that appends the event to the bus, and a
  broker whose \<^verbatim>\<open>publish\<close> rejects.
\<close>

definition error_toString :: "error \<Rightarrow> string" where
  "error_toString e = name e @ '': '' @ message e"

definition publish_ok :: "event_params list broker" where
  "publish_ok ev bus = (Resolved (), bus @ [ev])"

definition publish_failing :: "event_params list broker" where
  "publish_failing ev bus = (Rejected (Error ''Error'' ''bus down''), bus)"

section \<open>Properties\<close>

subsection \<open>The duplicate scan of the health route\<close>

lemma indexOf_notin: "e \<notin> set a \<Longrightarrow> indexOf a e = - 1"
  by (induction a) (auto simp: Let_def)

lemma indexOf_first:
  "e \<in> set a \<Longrightarrow> \<exists>n<length a. indexOf a e = int n \<and> a ! n = e \<and> (\<forall>j<n. a ! j \<noteq> e)"
proof (induction a)
  case Nil
  then show ?case by simp
next
  case (Cons x xs)
  show ?case
  proof (cases "x = e")
    case True
    then show ?thesis by (intro exI[of _ 0]) simp
  next
    case False
    with Cons.prems have "e \<in> set xs" by simp
    from Cons.IH[OF this] obtain n where n: "n < length xs" "indexOf xs e = int n" "xs ! n = e"
      "\<forall>j<n. xs ! j \<noteq> e" by blast
    show ?thesis
    proof (intro exI[of _ "Suc n"] conjI allI impI)
      show "Suc n < length (x # xs)" using n by simp
      show "indexOf (x # xs) e = int (Suc n)" using False n by (simp add: Let_def)
      show "(x # xs) ! Suc n = e" using n by simp
      fix j assume "j < Suc n"
      then show "(x # xs) ! j \<noteq> e" using False n by (cases j) auto
    qed
  qed
qed

lemma indexOf_neq_iff:
  assumes "i < length a"
  shows "indexOf a (a ! i) \<noteq> int i \<longleftrightarrow> (\<exists>j<i. a ! j = a ! i)"
proof -
  have "a ! i \<in> set a" using assms by simp
  from indexOf_first[OF this] obtain n where n: "n < length a" "indexOf a (a ! i) = int n"
    "a ! n = a ! i" "\<forall>j<n. a ! j \<noteq> a ! i" by blast
  have "n \<le> i"
  proof (rule ccontr)
    assume "\<not> n \<le> i"
    then have "i < n" by simp
    with n(4) show False by blast
  qed
  show ?thesis
  proof
    assume "indexOf a (a ! i) \<noteq> int i"
    then have "n < i" using n(2) \<open>n \<le> i\<close> by simp
    then show "\<exists>j<i. a ! j = a ! i" using n(3) by blast
  next
    assume "\<exists>j<i. a ! j = a ! i"
    then obtain j where "j < i" "a ! j = a ! i" by blast
    then have "n \<noteq> i" using n(4) by blast
    then show "indexOf a (a ! i) \<noteq> int i" using n(2) by simp
  qed
qed

lemma set_zip_upt: "set (zip a [0..<length a]) = {(a ! i, i) | i. i < length a}"
  by (auto simp: set_zip)

lemma set_filter_js:
  "set (filter_js f a) = {a ! i | i. i < length a \<and> f (a ! i) i a}"
proof (intro set_eqI iffI)
  fix x assume "x \<in> set (filter_js f a)"
  then obtain p where p: "p \<in> set (zip a [0..<length a])" "case p of (e, i) \<Rightarrow> f e i a" "x = fst p"
    unfolding filter_js_def by auto
  from p(1) obtain i where "p = (a ! i, i)" "i < length a" unfolding set_zip_upt by blast
  with p show "x \<in> {a ! i | i. i < length a \<and> f (a ! i) i a}" by auto
next
  fix x assume "x \<in> {a ! i | i. i < length a \<and> f (a ! i) i a}"
  then obtain i where i: "x = a ! i" "i < length a" "f (a ! i) i a" by blast
  then have "(a ! i, i) \<in> set (zip a [0..<length a])" unfolding set_zip_upt by blast
  with i have "(a ! i, i) \<in> set (filter (\<lambda>(e, i). f e i a) (zip a [0..<length a]))" by simp
  then have "fst (a ! i, i) \<in> set (filter_js f a)" unfolding filter_js_def set_map by (rule imageI)
  with i show "x \<in> set (filter_js f a)" by simp
qed

lemma set_new_Set_aux: "set (foldl set_add acc xs) = set acc \<union> set xs"
  by (induction xs arbitrary: acc) (auto simp: set_add_def)

lemma distinct_new_Set_aux: "distinct acc \<Longrightarrow> distinct (foldl set_add acc xs)"
  by (induction xs arbitrary: acc) (auto simp: set_add_def)

lemma set_new_Set: "set (new_Set xs) = set xs"
  by (simp add: new_Set_def set_new_Set_aux)

lemma distinct_new_Set: "distinct (new_Set xs)"
  by (simp add: new_Set_def distinct_new_Set_aux)


lemma count_list_pos_iff: "0 < count_list a x \<longleftrightarrow> x \<in> set a"
  by (induction a) auto

lemma count_list_gt1_iff:
  "1 < count_list a x \<longleftrightarrow> (\<exists>i j. j < i \<and> i < length a \<and> a ! i = x \<and> a ! j = x)"
proof (induction a)
  case Nil
  then show ?case by simp
next
  case (Cons y ys)
  have shift: "(\<exists>i j. j < i \<and> i < length (y # ys) \<and> (y # ys) ! i = x \<and> (y # ys) ! j = x)
     \<longleftrightarrow> (y = x \<and> x \<in> set ys) \<or> (\<exists>i j. j < i \<and> i < length ys \<and> ys ! i = x \<and> ys ! j = x)"
    (is "?L \<longleftrightarrow> ?A \<or> ?B")
  proof
    assume ?L
    then obtain i j where ij: "j < i" "i < length (y # ys)" "(y # ys) ! i = x" "(y # ys) ! j = x"
      by blast
    from ij(1) obtain i' where i': "i = Suc i'" by (cases i) auto
    show "?A \<or> ?B"
    proof (cases j)
      case 0
      then show ?thesis using ij i' by auto
    next
      case (Suc j')
      then have "j' < i' \<and> i' < length ys \<and> ys ! i' = x \<and> ys ! j' = x" using ij i' by auto
      then show ?thesis by blast
    qed
  next
    assume "?A \<or> ?B"
    then show ?L
    proof
      assume ?A
      then obtain k where "k < length ys" "ys ! k = x" by (auto simp: in_set_conv_nth)
      then have "0 < Suc k \<and> Suc k < length (y # ys) \<and> (y # ys) ! Suc k = x \<and> (y # ys) ! 0 = x"
        using \<open>?A\<close> by simp
      then show ?L by blast
    next
      assume ?B
      then obtain i j where "j < i" "i < length ys" "ys ! i = x" "ys ! j = x" by blast
      then have "Suc j < Suc i \<and> Suc i < length (y # ys) \<and> (y # ys) ! Suc i = x \<and> (y # ys) ! Suc j = x"
        by simp
      then show ?L by blast
    qed
  qed
  have "1 < count_list (y # ys) x \<longleftrightarrow> (y = x \<and> 0 < count_list ys x) \<or> 1 < count_list ys x"
    by auto
  then show ?case unfolding shift using Cons.IH count_list_pos_iff[of ys x] by simp
qed

lemma set_duplicates_of: "set (duplicates_of ps) = {x. 1 < count_list ps x}"
proof -
  have "set (duplicates_of ps) = {ps ! i | i. i < length ps \<and> indexOf ps (ps ! i) \<noteq> int i}"
    by (simp add: duplicates_of_def set_new_Set set_filter_js)
  also have "\<dots> = {ps ! i | i. i < length ps \<and> (\<exists>j<i. ps ! j = ps ! i)}"
  proof -
    have "\<And>i. i < length ps \<Longrightarrow> (indexOf ps (ps ! i) \<noteq> int i) = (\<exists>j<i. ps ! j = ps ! i)"
      by (rule indexOf_neq_iff)
    then show ?thesis by (intro Collect_cong ex_cong1 conj_cong refl) simp
  qed
  also have "\<dots> = {x. 1 < count_list ps x}"
  proof (intro set_eqI iffI)
    fix x assume "x \<in> {ps ! i | i. i < length ps \<and> (\<exists>j<i. ps ! j = ps ! i)}"
    then obtain i j where "i < length ps" "j < i" "ps ! j = ps ! i" "x = ps ! i" by blast
    then have "j < i \<and> i < length ps \<and> ps ! i = x \<and> ps ! j = x" by simp
    then show "x \<in> {x. 1 < count_list ps x}" unfolding count_list_gt1_iff by blast
  next
    fix x assume "x \<in> {x. 1 < count_list ps x}"
    then obtain i j where "j < i" "i < length ps" "ps ! i = x" "ps ! j = x"
      unfolding count_list_gt1_iff by blast
    then have "x = ps ! i \<and> i < length ps \<and> (\<exists>j<i. ps ! j = ps ! i)" by auto
    then show "x \<in> {ps ! i | i. i < length ps \<and> (\<exists>j<i. ps ! j = ps ! i)}" by blast
  qed
  finally show ?thesis .
qed

lemma distinct_duplicates_of: "distinct (duplicates_of ps)"
  by (simp add: duplicates_of_def distinct_new_Set)

lemma distinct_iff_count_list: "distinct ps \<longleftrightarrow> (\<forall>x. count_list ps x \<le> 1)"
proof (induction ps)
  case Nil
  show ?case by simp
next
  case (Cons y ys)
  have "(\<forall>x. count_list (y # ys) x \<le> 1) \<longleftrightarrow> count_list ys y = 0 \<and> (\<forall>x. count_list ys x \<le> 1)"
  proof
    assume a: "\<forall>x. count_list (y # ys) x \<le> 1"
    have "count_list (y # ys) y \<le> 1" using a by (rule spec)
    then have y0: "count_list ys y = 0" by simp
    have "\<forall>x. count_list ys x \<le> 1"
    proof
      fix x
      have "count_list (y # ys) x \<le> 1" using a by (rule spec)
      then show "count_list ys x \<le> 1" by (cases "y = x") simp_all
    qed
    with y0 show "count_list ys y = 0 \<and> (\<forall>x. count_list ys x \<le> 1)" by simp
  next
    assume b: "count_list ys y = 0 \<and> (\<forall>x. count_list ys x \<le> 1)"
    show "\<forall>x. count_list (y # ys) x \<le> 1"
    proof
      fix x
      have "count_list ys x \<le> 1" using b by simp
      then show "count_list (y # ys) x \<le> 1" using b by (cases "y = x") simp_all
    qed
  qed
  then show ?case using Cons.IH by (simp add: count_list_0_iff)
qed

lemma duplicates_of_Nil_iff: "duplicates_of ps = [] \<longleftrightarrow> (\<forall>x. count_list ps x \<le> 1)"
proof -
  have "duplicates_of ps = [] \<longleftrightarrow> set (duplicates_of ps) = {}" by simp
  also have "\<dots> \<longleftrightarrow> (\<forall>x. \<not> 1 < count_list ps x)"
    unfolding set_duplicates_of by blast
  also have "\<dots> \<longleftrightarrow> (\<forall>x. count_list ps x \<le> 1)"
    by (simp add: not_less)
  finally show ?thesis .
qed

lemma duplicates_of_example: "duplicates_of [''foo'', ''bar'', ''foo'', ''baz'', ''bar'', ''foo''] = [''foo'', ''bar'']"
  by code_simp

subsection \<open>GET /health\<close>

text \<open>
  Claim C1. When the health check returns its records, \<^verbatim>\<open>GET /health\<close> answers 200 and
  \<^verbatim>\<open>healthy\<close> is \<^verbatim>\<open>true\<close> exactly when no provider name occurs more than once among
  them. In that case \<^verbatim>\<open>healthy\<close> is the only key of the body. When some provider name
  occurs more than once, \<^verbatim>\<open>healthy\<close> is \<^verbatim>\<open>false\<close> and \<^verbatim>\<open>duplicateIngestions\<close> is an
  array of strings without repetition whose elements are exactly the provider names
  that occur more than once.
\<close>

theorem health_reports_duplicates:
  assumes "healthcheck m s = Resolved records"
  shows "resp_status (fst (get_health m s)) = Some 200 \<and>
    (field (resp_body (fst (get_health m s))) ''healthy'' = JBool True
       \<longleftrightarrow> (\<forall>p. count_list (map provider_name records) p \<le> 1)) \<and>
    ((\<forall>p. count_list (map provider_name records) p \<le> 1)
       \<longrightarrow> keys (resp_body (fst (get_health m s))) = [''healthy'']) \<and>
    ((\<exists>p. 1 < count_list (map provider_name records) p)
       \<longrightarrow> field (resp_body (fst (get_health m s))) ''healthy'' = JBool False \<and>
           (\<exists>ds. field (resp_body (fst (get_health m s))) ''duplicateIngestions'' = JArr (map JStr ds) \<and>
                 distinct ds \<and>
                 set ds = {p. 1 < count_list (map provider_name records) p}))"
proof (cases "duplicates_of (map provider_name records) = []")
  case True
  then have none: "\<forall>p. count_list (map provider_name records) p \<le> 1"
    by (simp add: duplicates_of_Nil_iff)
  then have "\<not> (\<exists>p. 1 < count_list (map provider_name records) p)"
    by (simp add: not_less)
  moreover have "get_health m s = (json 200 (JObj [(''healthy'', JBool True)]), s)"
    using assms True by (simp add: get_health_def)
  ultimately show ?thesis using none
    by (simp add: json_def resp_status_def resp_body_def)
next
  case False
  then have some: "\<not> (\<forall>p. count_list (map provider_name records) p \<le> 1)"
    by (simp add: duplicates_of_Nil_iff)
  have "get_health m s =
      (json 200 (JObj [(''healthy'', JBool False),
         (''duplicateIngestions'', JArr (map JStr (duplicates_of (map provider_name records))))]), s)"
    using assms False by (simp add: get_health_def)
  moreover have "distinct (duplicates_of (map provider_name records))"
    by (rule distinct_duplicates_of)
  moreover have "set (duplicates_of (map provider_name records))
      = {p. 1 < count_list (map provider_name records) p}"
    by (rule set_duplicates_of)
  ultimately show ?thesis using some
    by (auto simp: json_def resp_status_def resp_body_def)
qed

theorem health_reports_duplicates_witness:
  "(1 < count_list (map provider_name
          [sample_record ''1'' ''foo'' ''ingesting'', sample_record ''2'' ''bar'' ''ingesting'',
           sample_record ''3'' ''foo'' ''canceling'']) ''foo'' \<and>
    field (resp_body (fst (get_health
       (stub_manager [sample_record ''1'' ''foo'' ''ingesting'', sample_record ''2'' ''bar'' ''ingesting'',
                      sample_record ''3'' ''foo'' ''canceling''] [''foo'', ''bar''] (\<lambda>i. JArr [])) 0)))
     ''healthy'' = JBool False) \<and>
   ((\<forall>p. count_list (map provider_name
          [sample_record ''1'' ''foo'' ''ingesting'', sample_record ''2'' ''bar'' ''ingesting'']) p \<le> 1) \<and>
    keys (resp_body (fst (get_health
       (stub_manager [sample_record ''1'' ''foo'' ''ingesting'', sample_record ''2'' ''bar'' ''ingesting'']
          [''foo'', ''bar''] (\<lambda>i. JArr [])) 0))) = [''healthy''])"
proof -
  let ?rs = "[sample_record ''1'' ''foo'' ''ingesting'', sample_record ''2'' ''bar'' ''ingesting'',
              sample_record ''3'' ''foo'' ''canceling'']"
  let ?rs' = "[sample_record ''1'' ''foo'' ''ingesting'', sample_record ''2'' ''bar'' ''ingesting'']"
  let ?m = "stub_manager ?rs [''foo'', ''bar''] (\<lambda>i. JArr [])"
  let ?m' = "stub_manager ?rs' [''foo'', ''bar''] (\<lambda>i. JArr [])"
  have h: "healthcheck ?m 0 = Resolved ?rs"
    by (simp add: stub_manager_def)
  have h': "healthcheck ?m' 0 = Resolved ?rs'"
    by (simp add: stub_manager_def)
  have c: "1 < count_list (map provider_name ?rs) ''foo''"
    by (simp add: sample_record_def)
  then have ex: "\<exists>p. 1 < count_list (map provider_name ?rs) p" by (rule exI)
  have c': "\<forall>p. count_list (map provider_name ?rs') p \<le> 1"
    by (simp add: sample_record_def)
  from health_reports_duplicates[OF h] ex
  have 1: "field (resp_body (fst (get_health ?m 0))) ''healthy'' = JBool False" by blast
  from health_reports_duplicates[OF h'] c'
  have 2: "keys (resp_body (fst (get_health ?m' 0))) = [''healthy'']" by blast
  from c 1 c' 2 show ?thesis by blast
qed

subsection \<open>The spy and the stub\<close>

lemma spy_healthcheck: "healthcheck (spy m) w = healthcheck m (fst w)"
  by (simp add: spy_def)

lemma spy_getCurrentIngestionRecord:
  "getCurrentIngestionRecord (spy m) p w = getCurrentIngestionRecord m p (fst w)"
  by (simp add: spy_def)

lemma spy_listProviders: "listProviders (spy m) w = listProviders m (fst w)"
  by (simp add: spy_def)

lemma spy_getAllMarks: "getAllMarks (spy m) i w = getAllMarks m i (fst w)"
  by (simp add: spy_def)

lemma spy_triggerNextProviderAction:
  "triggerNextProviderAction (spy m) p (s, cs) =
     (fst (triggerNextProviderAction m p s),
      (snd (triggerNextProviderAction m p s), cs @ [Call_triggerNextProviderAction p]))"
  by (simp add: spy_def noting_def split: prod.splits)

lemma spy_setProviderComplete:
  "setProviderComplete (spy m) i (s, cs) =
     (fst (setProviderComplete m i s),
      (snd (setProviderComplete m i s), cs @ [Call_setProviderComplete i]))"
  by (simp add: spy_def noting_def split: prod.splits)

lemma spy_setProviderCanceling:
  "setProviderCanceling (spy m) i (s, cs) =
     (fst (setProviderCanceling m i s),
      (snd (setProviderCanceling m i s), cs @ [Call_setProviderCanceling i]))"
  by (simp add: spy_def noting_def split: prod.splits)

lemma spy_updateByName:
  "updateByName (spy m) p u (s, cs) =
     (fst (updateByName m p u s),
      (snd (updateByName m p u s), cs @ [Call_updateByName p u]))"
  by (simp add: spy_def noting_def split: prod.splits)

lemma spy_clearFinishedIngestions:
  "clearFinishedIngestions (spy m) p (s, cs) =
     (fst (clearFinishedIngestions m p s),
      (snd (clearFinishedIngestions m p s), cs @ [Call_clearFinishedIngestions p]))"
  by (simp add: spy_def noting_def split: prod.splits)

lemmas spy_simps = spy_healthcheck spy_getCurrentIngestionRecord spy_listProviders
  spy_getAllMarks spy_triggerNextProviderAction spy_setProviderComplete
  spy_setProviderCanceling spy_updateByName spy_clearFinishedIngestions

lemmas reply_simps = json_def rejected_def logging_def resp_status_def resp_body_def

lemma demo_current_foo:
  "getCurrentIngestionRecord demo_manager ''foo'' n
     = Resolved (Some (sample_record ''1'' ''foo'' ''ingesting''))"
  by (simp add: demo_manager_def stub_manager_def sample_record_def)

lemma demo_current_qux:
  "getCurrentIngestionRecord demo_manager ''qux'' n
     = Resolved (Some (sample_record ''2'' ''qux'' ''resting''))"
  by (simp add: demo_manager_def stub_manager_def sample_record_def)

lemma demo_current_bar: "getCurrentIngestionRecord demo_manager ''bar'' n = Resolved None"
  by (simp add: demo_manager_def stub_manager_def sample_record_def)

lemma demo_current_ghost: "getCurrentIngestionRecord demo_manager ''ghost'' n = Resolved None"
  by (simp add: demo_manager_def stub_manager_def sample_record_def)

lemma demo_listProviders: "listProviders demo_manager n = Resolved [''foo'', ''bar'', ''qux'']"
  by (simp add: demo_manager_def stub_manager_def)

lemma demo_writes:
  "updateByName demo_manager p u n = (Resolved (), Suc n)"
  "setProviderComplete demo_manager i n = (Resolved (), Suc n)"
  "setProviderCanceling demo_manager i n = (Resolved (), Suc n)"
  "triggerNextProviderAction demo_manager p n = (Resolved (), Suc n)"
  "clearFinishedIngestions demo_manager p n = (Resolved (JNum 0), Suc n)"
  by (simp_all add: demo_manager_def stub_manager_def)

lemma sample_record_sel:
  "record_id (sample_record i p st) = i"
  "provider_name (sample_record i p st) = p"
  "status (sample_record i p st) = st"
  by (simp_all add: sample_record_def)

subsection \<open>GET /{provider}\<close>

text \<open>
  Claim C2. \<^verbatim>\<open>GET /{provider}\<close>: when the manager returns a current record, the answer is
  200 with \<^verbatim>\<open>success:true\<close>, \<^verbatim>\<open>status.current_action\<close> the status of the record,
  \<^verbatim>\<open>status.next_action_at\<close> its date, and \<^verbatim>\<open>last_error\<close> its last error. When there is
  no current record and the provider is among \<^verbatim>\<open>listProviders()\<close>, the answer is 200 with
  \<^verbatim>\<open>success:true\<close> and \<^verbatim>\<open>status.current_action\<close>
  \<^verbatim>\<open>"rest complete, waiting to start"\<close>. Otherwise the answer is 404 with
  \<^verbatim>\<open>success:false\<close> and \<^verbatim>\<open>last_error\<close> \<^verbatim>\<open>"Provider '<name>' not found"\<close>.
\<close>

theorem get_provider_status:
  "(getCurrentIngestionRecord m p s = Resolved (Some r) \<longrightarrow>
      resp_status (fst (get_provider m p s)) = Some 200 \<and>
      field (resp_body (fst (get_provider m p s))) ''success'' = JBool True \<and>
      field (field (resp_body (fst (get_provider m p s))) ''status'') ''current_action''
        = JStr (status r) \<and>
      field (field (resp_body (fst (get_provider m p s))) ''status'') ''next_action_at''
        = JDate (next_action_at r) \<and>
      field (resp_body (fst (get_provider m p s))) ''last_error''
        = (case last_error r of None \<Rightarrow> JNull | Some err \<Rightarrow> JStr err)) \<and>
   (getCurrentIngestionRecord m p s = Resolved None \<and> listProviders m s = Resolved ps \<and>
    p \<in> set ps \<longrightarrow>
      resp_status (fst (get_provider m p s)) = Some 200 \<and>
      field (resp_body (fst (get_provider m p s))) ''success'' = JBool True \<and>
      field (field (resp_body (fst (get_provider m p s))) ''status'') ''current_action''
        = JStr ''rest complete, waiting to start'') \<and>
   (getCurrentIngestionRecord m p s = Resolved None \<and> listProviders m s = Resolved ps \<and>
    p \<notin> set ps \<longrightarrow>
      resp_status (fst (get_provider m p s)) = Some 404 \<and>
      field (resp_body (fst (get_provider m p s))) ''success'' = JBool False \<and>
      field (resp_body (fst (get_provider m p s))) ''last_error''
        = JStr (''Provider '' @ apos @ p @ apos @ '' not found''))"
proof (intro conjI impI)
  assume "getCurrentIngestionRecord m p s = Resolved (Some r)"
  then have run: "get_provider m p s =
      (json 200 (JObj [(''success'', JBool True),
                       (''status'', JObj [(''current_action'', JStr (status r)),
                                          (''next_action_at'', JDate (next_action_at r))]),
                       (''last_error'', (case last_error r of
                                           None \<Rightarrow> JNull | Some err \<Rightarrow> JStr err))]), s)"
    by (simp add: get_provider_def)
  show "resp_status (fst (get_provider m p s)) = Some 200"
    and "field (resp_body (fst (get_provider m p s))) ''success'' = JBool True"
    and "field (field (resp_body (fst (get_provider m p s))) ''status'') ''current_action''
        = JStr (status r)"
    and "field (field (resp_body (fst (get_provider m p s))) ''status'') ''next_action_at''
        = JDate (next_action_at r)"
    and "field (resp_body (fst (get_provider m p s))) ''last_error''
        = (case last_error r of None \<Rightarrow> JNull | Some err \<Rightarrow> JStr err)"
    by (simp_all add: run reply_simps)
next
  assume "getCurrentIngestionRecord m p s = Resolved None \<and> listProviders m s = Resolved ps \<and>
    p \<in> set ps"
  then have run: "get_provider m p s =
      (json 200 (JObj [(''success'', JBool True),
                       (''status'', JObj [(''current_action'',
                                           JStr ''rest complete, waiting to start'')])]), s)"
    by (simp add: get_provider_def)
  show "resp_status (fst (get_provider m p s)) = Some 200"
    and "field (resp_body (fst (get_provider m p s))) ''success'' = JBool True"
    and "field (field (resp_body (fst (get_provider m p s))) ''status'') ''current_action''
        = JStr ''rest complete, waiting to start''"
    by (simp_all add: run reply_simps)
next
  assume "getCurrentIngestionRecord m p s = Resolved None \<and> listProviders m s = Resolved ps \<and>
    p \<notin> set ps"
  then have run: "get_provider m p s =
      (logging LogError (p @ '' - No ingestion record found in the database!'')
         (json 404 (JObj [(''success'', JBool False),
                          (''status'', JObj []),
                          (''last_error'',
                           JStr (''Provider '' @ apos @ p @ apos @ '' not found''))])), s)"
    by (simp add: get_provider_def)
  show "resp_status (fst (get_provider m p s)) = Some 404"
    and "field (resp_body (fst (get_provider m p s))) ''success'' = JBool False"
    and "field (resp_body (fst (get_provider m p s))) ''last_error''
        = JStr (''Provider '' @ apos @ p @ apos @ '' not found'')"
    by (simp_all add: run reply_simps)
qed

theorem get_provider_status_witness:
  "(resp_status (fst (get_provider
        (stub_manager [sample_record ''1'' ''foo'' ''ingesting''] [''foo'', ''bar''] (\<lambda>i. JArr []))
        ''foo'' 0)) = Some 200 \<and>
    field (field (resp_body (fst (get_provider
        (stub_manager [sample_record ''1'' ''foo'' ''ingesting''] [''foo'', ''bar''] (\<lambda>i. JArr []))
        ''foo'' 0))) ''status'') ''current_action'' = JStr ''ingesting'') \<and>
   (resp_status (fst (get_provider
        (stub_manager [sample_record ''1'' ''foo'' ''ingesting''] [''foo'', ''bar''] (\<lambda>i. JArr []))
        ''bar'' 0)) = Some 200 \<and>
    field (field (resp_body (fst (get_provider
        (stub_manager [sample_record ''1'' ''foo'' ''ingesting''] [''foo'', ''bar''] (\<lambda>i. JArr []))
        ''bar'' 0))) ''status'') ''current_action'' = JStr ''rest complete, waiting to start'') \<and>
   (resp_status (fst (get_provider
        (stub_manager [sample_record ''1'' ''foo'' ''ingesting''] [''foo'', ''bar''] (\<lambda>i. JArr []))
        ''baz'' 0)) = Some 404 \<and>
    field (resp_body (fst (get_provider
        (stub_manager [sample_record ''1'' ''foo'' ''ingesting''] [''foo'', ''bar''] (\<lambda>i. JArr []))
        ''baz'' 0))) ''last_error'' = JStr (''Provider '' @ apos @ ''baz'' @ apos @ '' not found''))"
proof -
  let ?m = "stub_manager [sample_record ''1'' ''foo'' ''ingesting''] [''foo'', ''bar''] (\<lambda>i. JArr [])"
  have cur: "getCurrentIngestionRecord ?m ''foo'' 0 = Resolved (Some (sample_record ''1'' ''foo'' ''ingesting''))"
    by (simp add: stub_manager_def sample_record_def)
  have st: "status (sample_record ''1'' ''foo'' ''ingesting'') = ''ingesting''"
    by (simp add: sample_record_def)
  have none_bar: "getCurrentIngestionRecord ?m ''bar'' 0 = Resolved None"
    by (simp add: stub_manager_def sample_record_def)
  have none_baz: "getCurrentIngestionRecord ?m ''baz'' 0 = Resolved None"
    by (simp add: stub_manager_def sample_record_def)
  have lp: "listProviders ?m 0 = Resolved [''foo'', ''bar'']"
    by (simp add: stub_manager_def)
  have known: "''bar'' \<in> set [''foo'', ''bar'']" by simp
  have unknown: "''baz'' \<notin> set [''foo'', ''bar'']" by simp
  from get_provider_status[where m = ?m and p = "''foo''" and s = 0
      and r = "sample_record ''1'' ''foo'' ''ingesting''"] cur st
  have 1: "resp_status (fst (get_provider ?m ''foo'' 0)) = Some 200 \<and>
    field (field (resp_body (fst (get_provider ?m ''foo'' 0))) ''status'') ''current_action''
      = JStr ''ingesting''" by simp
  from get_provider_status[where m = ?m and p = "''bar''" and s = 0 and ps = "[''foo'', ''bar'']"]
    none_bar lp known
  have 2: "resp_status (fst (get_provider ?m ''bar'' 0)) = Some 200 \<and>
    field (field (resp_body (fst (get_provider ?m ''bar'' 0))) ''status'') ''current_action''
      = JStr ''rest complete, waiting to start''" by blast
  from get_provider_status[where m = ?m and p = "''baz''" and s = 0 and ps = "[''foo'', ''bar'']"]
    none_baz lp unknown
  have 3: "resp_status (fst (get_provider ?m ''baz'' 0)) = Some 404 \<and>
    field (resp_body (fst (get_provider ?m ''baz'' 0))) ''last_error''
      = JStr (''Provider '' @ apos @ ''baz'' @ apos @ '' not found'')" by blast
  from 1 2 3 show ?thesis by blast
qed

subsection \<open>POST /{provider}/cancel\<close>

text \<open>
  Claim C3. When the provider has a current record, \<^verbatim>\<open>POST /{provider}/cancel\<close> makes
  exactly one changing call on the manager, \<^verbatim>\<open>updateByName\<close> for that provider, with an
  update whose \<^verbatim>\<open>status\<close> is \<^verbatim>\<open>resting\<close>, whose \<^verbatim>\<open>next_action\<close> is
  \<^verbatim>\<open>"nothing (done)"\<close>, whose \<^verbatim>\<open>ingestion_completed_at\<close> is the clock as read for that
  field, and whose \<^verbatim>\<open>next_action_at\<close> is the clock as read for that field plus
  86400000 ms (24 hours). The store is left as \<^verbatim>\<open>updateByName\<close> leaves it, and when
  \<^verbatim>\<open>updateByName\<close> resolves the answer is 200 with \<^verbatim>\<open>success:true\<close>.
\<close>

theorem post_cancel_rests_for_a_day:
  assumes "getCurrentIngestionRecord m p s = Resolved (Some r)"
  shows "\<exists>u. snd (snd (post_cancel (spy m) now p (s, []))) = [Call_updateByName p u] \<and>
     keys u = [''next_action'', ''ingestion_completed_at'', ''next_action_at'', ''status''] \<and>
     field u ''status'' = JStr ''resting'' \<and>
     field u ''next_action'' = JStr ''nothing (done)'' \<and>
     field u ''ingestion_completed_at'' = JDate (now 1) \<and>
     field u ''next_action_at'' = JDate (now 0 + 86400000) \<and>
     fst (snd (post_cancel (spy m) now p (s, []))) = snd (updateByName m p u s) \<and>
     (fst (updateByName m p u s) = Resolved () \<longrightarrow>
        resp_status (fst (post_cancel (spy m) now p (s, []))) = Some 200 \<and>
        field (resp_body (fst (post_cancel (spy m) now p (s, [])))) ''success'' = JBool True)"
proof -
  let ?u = "JObj [(''next_action'', JStr ''nothing (done)''),
                  (''ingestion_completed_at'', JDate (now 1)),
                  (''next_action_at'', JDate (now 0 + 86400000)),
                  (''status'', JStr ''resting'')]"
  have run: "post_cancel (spy m) now p (s, []) =
      (case (fst (updateByName m p ?u s), (snd (updateByName m p ?u s), [Call_updateByName p ?u])) of
         (Rejected e, s') \<Rightarrow> (rejected e, s')
       | (Resolved u, s') \<Rightarrow>
           (json 200 (JObj [(''success'', JBool True),
                            (''message'', JStr (p @ '': Current ingestion canceled.''))]), s'))"
    using assms by (simp add: post_cancel_def spy_simps Let_def)
  show ?thesis
    by (rule exI[of _ ?u]) (simp add: run reply_simps split: result.splits)
qed

theorem post_cancel_rests_for_a_day_witness:
  "\<exists>u. snd (post_cancel (spy demo_manager) demo_clock ''foo'' (0, []))
         = (1, [Call_updateByName ''foo'' u]) \<and>
       field u ''status'' = JStr ''resting'' \<and>
       field u ''next_action'' = JStr ''nothing (done)'' \<and>
       field u ''ingestion_completed_at'' = JDate 1700000000001 \<and>
       field u ''next_action_at'' = JDate 1700086400000 \<and>
       resp_status (fst (post_cancel (spy demo_manager) demo_clock ''foo'' (0, []))) = Some 200"
proof -
  from post_cancel_rests_for_a_day[OF demo_current_foo, where now = demo_clock and s = 0]
  obtain u where u:
    "snd (snd (post_cancel (spy demo_manager) demo_clock ''foo'' (0, []))) = [Call_updateByName ''foo'' u]"
    "field u ''status'' = JStr ''resting''"
    "field u ''next_action'' = JStr ''nothing (done)''"
    "field u ''ingestion_completed_at'' = JDate (demo_clock 1)"
    "field u ''next_action_at'' = JDate (demo_clock 0 + 86400000)"
    "fst (snd (post_cancel (spy demo_manager) demo_clock ''foo'' (0, [])))
       = snd (updateByName demo_manager ''foo'' u 0)"
    "fst (updateByName demo_manager ''foo'' u 0) = Resolved () \<longrightarrow>
       resp_status (fst (post_cancel (spy demo_manager) demo_clock ''foo'' (0, []))) = Some 200"
    by blast
  have "snd (post_cancel (spy demo_manager) demo_clock ''foo'' (0, [])) = (1, [Call_updateByName ''foo'' u])"
    using u(1) u(6) by (simp add: demo_writes prod_eq_iff)
  moreover have "resp_status (fst (post_cancel (spy demo_manager) demo_clock ''foo'' (0, []))) = Some 200"
    using u(7) by (simp add: demo_writes)
  moreover have "demo_clock 1 = 1700000000001" "demo_clock 0 + 86400000 = 1700086400000"
    by (simp_all add: demo_clock_def)
  ultimately show ?thesis using u(2-5) by (intro exI[of _ u]) simp
qed

subsection \<open>POST /{provider}/start\<close>

lemma post_start_resting:
  assumes "getCurrentIngestionRecord m p s = Resolved (Some r)" "status r = ''resting''"
  shows "snd (snd (post_start (spy m) p (s, []))) = [Call_setProviderComplete (record_id r)] \<and>
     fst (snd (post_start (spy m) p (s, []))) = snd (setProviderComplete m (record_id r) s) \<and>
     (fst (setProviderComplete m (record_id r) s) = Resolved () \<longrightarrow>
        resp_status (fst (post_start (spy m) p (s, []))) = Some 200 \<and>
        field (resp_body (fst (post_start (spy m) p (s, [])))) ''success'' = JBool True)"
  using assms
  by (simp add: post_start_def spy_simps Let_def reply_simps split: result.splits)

lemma post_start_active:
  assumes "getCurrentIngestionRecord m p s = Resolved (Some r)" "status r \<noteq> ''resting''"
  shows "snd (snd (post_start (spy m) p (s, []))) = [Call_setProviderCanceling (record_id r)] \<and>
     fst (snd (post_start (spy m) p (s, []))) = snd (setProviderCanceling m (record_id r) s) \<and>
     (fst (setProviderCanceling m (record_id r) s) = Resolved () \<longrightarrow>
        resp_status (fst (post_start (spy m) p (s, []))) = Some 200 \<and>
        field (resp_body (fst (post_start (spy m) p (s, [])))) ''success'' = JBool True)"
  using assms
  by (simp add: post_start_def spy_simps Let_def reply_simps split: result.splits)

lemma post_start_calls:
  "list_all is_start_call (snd (snd (post_start (spy m) p (s, [])))) \<and>
   length (snd (snd (post_start (spy m) p (s, [])))) \<le> 1"
  by (simp add: post_start_def spy_simps Let_def is_start_call_def
      split: result.splits option.splits)

text \<open>
  Claim C4. When the provider has a current record, \<^verbatim>\<open>POST /{provider}/start\<close> calls
  \<^verbatim>\<open>setProviderComplete\<close> on the id of the record if its status is \<^verbatim>\<open>resting\<close>, and
  \<^verbatim>\<open>setProviderCanceling\<close> on that id in every other case; that is its only changing
  call, and when it resolves the answer is 200 with \<^verbatim>\<open>success:true\<close>. Whatever the
  manager returns, the handler makes at most one changing call and it is one of these
  two: it never creates a record itself.
\<close>

theorem post_start_completes_or_cancels:
  "(getCurrentIngestionRecord m p s = Resolved (Some r) \<and> status r = ''resting'' \<longrightarrow>
      snd (snd (post_start (spy m) p (s, []))) = [Call_setProviderComplete (record_id r)] \<and>
      fst (snd (post_start (spy m) p (s, []))) = snd (setProviderComplete m (record_id r) s) \<and>
      (fst (setProviderComplete m (record_id r) s) = Resolved () \<longrightarrow>
         resp_status (fst (post_start (spy m) p (s, []))) = Some 200 \<and>
         field (resp_body (fst (post_start (spy m) p (s, [])))) ''success'' = JBool True)) \<and>
   (getCurrentIngestionRecord m p s = Resolved (Some r) \<and> status r \<noteq> ''resting'' \<longrightarrow>
      snd (snd (post_start (spy m) p (s, []))) = [Call_setProviderCanceling (record_id r)] \<and>
      fst (snd (post_start (spy m) p (s, []))) = snd (setProviderCanceling m (record_id r) s) \<and>
      (fst (setProviderCanceling m (record_id r) s) = Resolved () \<longrightarrow>
         resp_status (fst (post_start (spy m) p (s, []))) = Some 200 \<and>
         field (resp_body (fst (post_start (spy m) p (s, [])))) ''success'' = JBool True)) \<and>
   list_all is_start_call (snd (snd (post_start (spy m) p (s, [])))) \<and>
   length (snd (snd (post_start (spy m) p (s, [])))) \<le> 1"
  using post_start_resting[of m p s r] post_start_active[of m p s r] post_start_calls[of m p s]
  by blast

theorem post_start_completes_or_cancels_witness:
  "(snd (post_start (spy demo_manager) ''qux'' (0, [])) = (1, [Call_setProviderComplete ''2'']) \<and>
    resp_status (fst (post_start (spy demo_manager) ''qux'' (0, []))) = Some 200) \<and>
   (snd (post_start (spy demo_manager) ''foo'' (0, [])) = (1, [Call_setProviderCanceling ''1'']) \<and>
    resp_status (fst (post_start (spy demo_manager) ''foo'' (0, []))) = Some 200)"
proof -
  from post_start_completes_or_cancels[where m = demo_manager and p = "''qux''" and s = 0
      and r = "sample_record ''2'' ''qux'' ''resting''"]
  have 1: "snd (post_start (spy demo_manager) ''qux'' (0, [])) = (1, [Call_setProviderComplete ''2'']) \<and>
    resp_status (fst (post_start (spy demo_manager) ''qux'' (0, []))) = Some 200"
    by (simp add: demo_current_qux sample_record_sel demo_writes prod_eq_iff)
  from post_start_completes_or_cancels[where m = demo_manager and p = "''foo''" and s = 0
      and r = "sample_record ''1'' ''foo'' ''ingesting''"]
  have 2: "snd (post_start (spy demo_manager) ''foo'' (0, [])) = (1, [Call_setProviderCanceling ''1'']) \<and>
    resp_status (fst (post_start (spy demo_manager) ''foo'' (0, []))) = Some 200"
    by (simp add: demo_current_foo sample_record_sel demo_writes prod_eq_iff)
  from 1 2 show ?thesis by blast
qed

subsection \<open>POST /{provider}/trigger\<close>

lemma post_trigger_calls_iff:
  "Call_triggerNextProviderAction p \<in> set (snd (snd (post_trigger (spy m) p (s, []))))
     \<longleftrightarrow> (\<exists>r. getCurrentIngestionRecord m p s = Resolved (Some r))"
  by (simp add: post_trigger_def spy_simps split: result.splits option.splits)

lemma post_trigger_current:
  assumes "getCurrentIngestionRecord m p s = Resolved (Some r)"
  shows "snd (snd (post_trigger (spy m) p (s, []))) = [Call_triggerNextProviderAction p] \<and>
     fst (snd (post_trigger (spy m) p (s, []))) = snd (triggerNextProviderAction m p s) \<and>
     (fst (triggerNextProviderAction m p s) = Resolved () \<longrightarrow>
        resp_status (fst (post_trigger (spy m) p (s, []))) = Some 200 \<and>
        field (resp_body (fst (post_trigger (spy m) p (s, [])))) ''success'' = JBool True)"
  using assms
  by (simp add: post_trigger_def spy_simps reply_simps split: result.splits)

lemma post_trigger_known:
  assumes "getCurrentIngestionRecord m p s = Resolved None" "listProviders m s = Resolved ps"
    "p \<in> set ps"
  shows "snd (post_trigger (spy m) p (s, [])) = (s, []) \<and>
     resp_status (fst (post_trigger (spy m) p (s, []))) = Some 200 \<and>
     field (resp_body (fst (post_trigger (spy m) p (s, [])))) ''success'' = JBool True \<and>
     field (resp_body (fst (post_trigger (spy m) p (s, [])))) ''message''
       = JStr ''Unable to trigger next action (provider is restarting)''"
  using assms
  by (simp add: post_trigger_def spy_simps reply_simps)

lemma post_trigger_unknown:
  assumes "getCurrentIngestionRecord m p s = Resolved None" "listProviders m s = Resolved ps"
    "p \<notin> set ps"
  shows "snd (post_trigger (spy m) p (s, [])) = (s, []) \<and>
     resp_status (fst (post_trigger (spy m) p (s, []))) = Some 404 \<and>
     field (resp_body (fst (post_trigger (spy m) p (s, [])))) ''success'' = JBool False \<and>
     field (resp_body (fst (post_trigger (spy m) p (s, [])))) ''message''
       = JStr (''Provider '' @ apos @ p @ apos @ '' not found'')"
  using assms
  by (simp add: post_trigger_def spy_simps reply_simps)

text \<open>
  Claim C6. \<^verbatim>\<open>POST /{provider}/trigger\<close> calls \<^verbatim>\<open>triggerNextProviderAction\<close> if and
  only if the manager returns a current record for the provider; then it is the only
  changing call and, when it resolves, the answer is 200 with \<^verbatim>\<open>success:true\<close>. With
  no current record and the provider among \<^verbatim>\<open>listProviders()\<close>, the answer is 200 with
  \<^verbatim>\<open>success:true\<close> and the restarting message, and nothing is called that changes the
  store. Otherwise the answer is 404 with \<^verbatim>\<open>success:false\<close> and the message
  \<^verbatim>\<open>"Provider '<name>' not found"\<close>.
\<close>

theorem post_trigger_only_with_current_record:
  "(Call_triggerNextProviderAction p \<in> set (snd (snd (post_trigger (spy m) p (s, []))))
      \<longleftrightarrow> (\<exists>r. getCurrentIngestionRecord m p s = Resolved (Some r))) \<and>
   (getCurrentIngestionRecord m p s = Resolved (Some r) \<longrightarrow>
      snd (snd (post_trigger (spy m) p (s, []))) = [Call_triggerNextProviderAction p] \<and>
      fst (snd (post_trigger (spy m) p (s, []))) = snd (triggerNextProviderAction m p s) \<and>
      (fst (triggerNextProviderAction m p s) = Resolved () \<longrightarrow>
         resp_status (fst (post_trigger (spy m) p (s, []))) = Some 200 \<and>
         field (resp_body (fst (post_trigger (spy m) p (s, [])))) ''success'' = JBool True)) \<and>
   (getCurrentIngestionRecord m p s = Resolved None \<and> listProviders m s = Resolved ps \<and>
    p \<in> set ps \<longrightarrow>
      snd (post_trigger (spy m) p (s, [])) = (s, []) \<and>
      resp_status (fst (post_trigger (spy m) p (s, []))) = Some 200 \<and>
      field (resp_body (fst (post_trigger (spy m) p (s, [])))) ''success'' = JBool True \<and>
      field (resp_body (fst (post_trigger (spy m) p (s, [])))) ''message''
        = JStr ''Unable to trigger next action (provider is restarting)'') \<and>
   (getCurrentIngestionRecord m p s = Resolved None \<and> listProviders m s = Resolved ps \<and>
    p \<notin> set ps \<longrightarrow>
      snd (post_trigger (spy m) p (s, [])) = (s, []) \<and>
      resp_status (fst (post_trigger (spy m) p (s, []))) = Some 404 \<and>
      field (resp_body (fst (post_trigger (spy m) p (s, [])))) ''success'' = JBool False \<and>
      field (resp_body (fst (post_trigger (spy m) p (s, [])))) ''message''
        = JStr (''Provider '' @ apos @ p @ apos @ '' not found''))"
  using post_trigger_calls_iff[of p m s] post_trigger_current[of m p s r]
    post_trigger_known[of m p s ps] post_trigger_unknown[of m p s ps]
  by blast

theorem post_trigger_only_with_current_record_witness:
  "(snd (post_trigger (spy demo_manager) ''foo'' (0, [])) = (1, [Call_triggerNextProviderAction ''foo'']) \<and>
    resp_status (fst (post_trigger (spy demo_manager) ''foo'' (0, []))) = Some 200) \<and>
   (snd (post_trigger (spy demo_manager) ''bar'' (0, [])) = (0, []) \<and>
    resp_status (fst (post_trigger (spy demo_manager) ''bar'' (0, []))) = Some 200) \<and>
   (snd (post_trigger (spy demo_manager) ''ghost'' (0, [])) = (0, []) \<and>
    resp_status (fst (post_trigger (spy demo_manager) ''ghost'' (0, []))) = Some 404)"
proof -
  from post_trigger_only_with_current_record[where m = demo_manager and p = "''foo''" and s = 0
      and r = "sample_record ''1'' ''foo'' ''ingesting''"]
  have 1: "snd (post_trigger (spy demo_manager) ''foo'' (0, [])) = (1, [Call_triggerNextProviderAction ''foo'']) \<and>
    resp_status (fst (post_trigger (spy demo_manager) ''foo'' (0, []))) = Some 200"
    by (simp add: demo_current_foo demo_writes prod_eq_iff)
  have known: "''bar'' \<in> set [''foo'', ''bar'', ''qux'']" by simp
  have unknown: "''ghost'' \<notin> set [''foo'', ''bar'', ''qux'']" by simp
  from post_trigger_only_with_current_record[where m = demo_manager and p = "''bar''" and s = 0
      and ps = "[''foo'', ''bar'', ''qux'']"] known
  have 2: "snd (post_trigger (spy demo_manager) ''bar'' (0, [])) = (0, []) \<and>
    resp_status (fst (post_trigger (spy demo_manager) ''bar'' (0, []))) = Some 200"
    using demo_current_bar[of 0] demo_listProviders[of 0] by blast
  from post_trigger_only_with_current_record[where m = demo_manager and p = "''ghost''" and s = 0
      and ps = "[''foo'', ''bar'', ''qux'']"] unknown
  have 3: "snd (post_trigger (spy demo_manager) ''ghost'' (0, [])) = (0, []) \<and>
    resp_status (fst (post_trigger (spy demo_manager) ''ghost'' (0, []))) = Some 404"
    using demo_current_ghost[of 0] demo_listProviders[of 0] by blast
  from 1 2 3 show ?thesis by blast
qed

subsection \<open>POST /{provider}/delta\<close>

lemma post_delta_no_broker:
  "resp_status (fst (post_delta str None p b bus)) = Some 500 \<and>
   field (resp_body (fst (post_delta str None p b bus))) ''success'' = JBool False \<and>
   field (resp_body (fst (post_delta str None p b bus))) ''message''
     = JStr ''The payload could not be processed!'' \<and>
   thrown (fst (post_delta str None p b bus))
     = Some (Error ''Error'' ''Event broker not initialized!'') \<and>
   snd (post_delta str None p b bus) = bus"
  by (simp add: post_delta_def reply_simps)

lemma post_delta_published:
  assumes "publish \<lparr>topic = p @ ''-push'', eventPayload = b\<rparr> bus = (Resolved (), bus')"
  shows "resp_status (fst (post_delta str (Some publish) p b bus)) = Some 200 \<and>
   field (resp_body (fst (post_delta str (Some publish) p b bus))) ''success'' = JBool True \<and>
   thrown (fst (post_delta str (Some publish) p b bus)) = None \<and>
   snd (post_delta str (Some publish) p b bus) = bus'"
  using assms by (simp add: post_delta_def reply_simps)

lemma post_delta_failed:
  assumes "publish \<lparr>topic = p @ ''-push'', eventPayload = b\<rparr> bus = (Rejected e, bus')"
  shows "resp_status (fst (post_delta str (Some publish) p b bus)) = Some 500 \<and>
   field (resp_body (fst (post_delta str (Some publish) p b bus))) ''success'' = JBool False \<and>
   field (resp_body (fst (post_delta str (Some publish) p b bus))) ''message''
     = JStr (''There was an error submitting the payload: '' @ str e) \<and>
   thrown (fst (post_delta str (Some publish) p b bus)) = None \<and>
   snd (post_delta str (Some publish) p b bus) = bus'"
  using assms by (simp add: post_delta_def reply_simps)

text \<open>
  Claim C7 as stated fails where the broker is not initialized: on a freshly
  constructed router the answer to \<^verbatim>\<open>POST /foo/delta\<close> is 500 with the fixed message
  \<^verbatim>\<open>"The payload could not be processed!"\<close>. The error
  \<^verbatim>\<open>Event broker not initialized!\<close> is thrown after the response has been sent;
  neither its rendering nor its message occurs in the response message.
\<close>

theorem delta_without_broker_echoes_no_error:
  "resp_status (fst (post_delta error_toString
       (eventBroker (new_router demo_manager)) ''foo'' JNull ([] :: event_params list))) = Some 500 \<and>
   thrown (fst (post_delta error_toString
       (eventBroker (new_router demo_manager)) ''foo'' JNull ([] :: event_params list)))
     = Some (Error ''Error'' ''Event broker not initialized!'') \<and>
   field (resp_body (fst (post_delta error_toString
       (eventBroker (new_router demo_manager)) ''foo'' JNull ([] :: event_params list)))) ''message''
     = JStr ''The payload could not be processed!'' \<and>
   \<not> sublist (error_toString (Error ''Error'' ''Event broker not initialized!''))
       ''The payload could not be processed!'' \<and>
   \<not> sublist ''Event broker not initialized!'' ''The payload could not be processed!''"
proof -
  have "\<not> sublist (error_toString (Error ''Error'' ''Event broker not initialized!''))
       ''The payload could not be processed!''"
    by code_simp
  moreover have "\<not> sublist ''Event broker not initialized!'' ''The payload could not be processed!''"
    by code_simp
  ultimately show ?thesis
    by (simp add: post_delta_def new_router_def reply_simps)
qed

text \<open>
  Claim C7, amended. Without a broker, \<^verbatim>\<open>POST /{provider}/delta\<close> answers 500 with
  \<^verbatim>\<open>success:false\<close> and the fixed message \<^verbatim>\<open>"The payload could not be processed!"\<close>,
  publishes nothing and then throws \<^verbatim>\<open>Error('Event broker not initialized!')\<close>. With a
  broker, the request body is published on topic \<^verbatim>\<open>"<provider>-push"\<close>; when
  \<^verbatim>\<open>publish\<close> resolves the answer is 200 with \<^verbatim>\<open>success:true\<close>, and when it rejects
  the answer is 500 with \<^verbatim>\<open>success:false\<close> and the message
  \<^verbatim>\<open>"There was an error submitting the payload: "\<close> followed by the stringified error.
\<close>

theorem post_delta_outcomes:
  "(resp_status (fst (post_delta str None p b bus)) = Some 500 \<and>
    field (resp_body (fst (post_delta str None p b bus))) ''success'' = JBool False \<and>
    field (resp_body (fst (post_delta str None p b bus))) ''message''
      = JStr ''The payload could not be processed!'' \<and>
    thrown (fst (post_delta str None p b bus))
      = Some (Error ''Error'' ''Event broker not initialized!'') \<and>
    snd (post_delta str None p b bus) = bus) \<and>
   (publish \<lparr>topic = p @ ''-push'', eventPayload = b\<rparr> bus = (Resolved (), bus') \<longrightarrow>
    resp_status (fst (post_delta str (Some publish) p b bus)) = Some 200 \<and>
    field (resp_body (fst (post_delta str (Some publish) p b bus))) ''success'' = JBool True \<and>
    thrown (fst (post_delta str (Some publish) p b bus)) = None \<and>
    snd (post_delta str (Some publish) p b bus) = bus') \<and>
   (publish \<lparr>topic = p @ ''-push'', eventPayload = b\<rparr> bus = (Rejected e, bus') \<longrightarrow>
    resp_status (fst (post_delta str (Some publish) p b bus)) = Some 500 \<and>
    field (resp_body (fst (post_delta str (Some publish) p b bus))) ''success'' = JBool False \<and>
    field (resp_body (fst (post_delta str (Some publish) p b bus))) ''message''
      = JStr (''There was an error submitting the payload: '' @ str e) \<and>
    thrown (fst (post_delta str (Some publish) p b bus)) = None \<and>
    snd (post_delta str (Some publish) p b bus) = bus')"
  using post_delta_no_broker[of str p b bus] post_delta_published[of publish p b bus bus' str]
    post_delta_failed[of publish p b bus e bus' str]
  by blast

theorem post_delta_outcomes_witness:
  "(resp_status (fst (post_delta error_toString (Some publish_ok) ''foo'' (JNum 7) [])) = Some 200 \<and>
    snd (post_delta error_toString (Some publish_ok) ''foo'' (JNum 7) [])
      = [\<lparr>topic = ''foo-push'', eventPayload = JNum 7\<rparr>]) \<and>
   (resp_status (fst (post_delta error_toString (Some publish_failing) ''foo'' (JNum 7) [])) = Some 500 \<and>
    field (resp_body (fst (post_delta error_toString (Some publish_failing) ''foo'' (JNum 7) [])))
      ''message'' = JStr ''There was an error submitting the payload: Error: bus down'' \<and>
    snd (post_delta error_toString (Some publish_failing) ''foo'' (JNum 7) []) = [])"
proof -
  have ok: "publish_ok \<lparr>topic = ''foo'' @ ''-push'', eventPayload = JNum 7\<rparr> []
      = (Resolved (), [\<lparr>topic = ''foo-push'', eventPayload = JNum 7\<rparr>])"
    by (simp add: publish_ok_def)
  have bad: "publish_failing \<lparr>topic = ''foo'' @ ''-push'', eventPayload = JNum 7\<rparr> []
      = (Rejected (Error ''Error'' ''bus down''), [])"
    by (simp add: publish_failing_def)
  have str: "''There was an error submitting the payload: '' @ error_toString (Error ''Error'' ''bus down'')
      = ''There was an error submitting the payload: Error: bus down''"
    by (simp add: error_toString_def)
  from post_delta_outcomes[where publish = publish_ok and p = "''foo''" and b = "JNum 7"
      and bus = "[]" and bus' = "[\<lparr>topic = ''foo-push'', eventPayload = JNum 7\<rparr>]"
      and str = error_toString] ok
  have 1: "resp_status (fst (post_delta error_toString (Some publish_ok) ''foo'' (JNum 7) [])) = Some 200 \<and>
    snd (post_delta error_toString (Some publish_ok) ''foo'' (JNum 7) [])
      = [\<lparr>topic = ''foo-push'', eventPayload = JNum 7\<rparr>]" by blast
  from post_delta_outcomes[where publish = publish_failing and p = "''foo''" and b = "JNum 7"
      and bus = "[]" and bus' = "[]" and e = "Error ''Error'' ''bus down''"
      and str = error_toString] bad
  have 2: "resp_status (fst (post_delta error_toString (Some publish_failing) ''foo'' (JNum 7) [])) = Some 500 \<and>
    field (resp_body (fst (post_delta error_toString (Some publish_failing) ''foo'' (JNum 7) [])))
      ''message'' = JStr ''There was an error submitting the payload: Error: bus down'' \<and>
    snd (post_delta error_toString (Some publish_failing) ''foo'' (JNum 7) []) = []"
    unfolding str[symmetric] by blast
  from 1 2 show ?thesis by blast
qed

subsection \<open>GET /{provider}/marks\<close>

lemma demo_marks_ascending: "ascending_by_sequence (demo_marks ''1'')"
  by (simp add: ascending_by_sequence_def demo_marks_def demo_mark_def mark_sequence_def)

lemma demo_getAllMarks: "getAllMarks demo_manager i n = Resolved (demo_marks i)"
  by (simp add: demo_manager_def stub_manager_def)

text \<open>
  Claim C8. \<^verbatim>\<open>GET /{provider}/marks\<close>: when the manager returns a current record and
  \<^verbatim>\<open>getAllMarks\<close> resolves for its id, the answer is 200 with \<^verbatim>\<open>success:true\<close> and
  \<^verbatim>\<open>records\<close> the very value that \<^verbatim>\<open>getAllMarks\<close> returned; so marks that the
  manager returns ascending by sequence are answered ascending by sequence. With no
  current record and a known provider the answer is 200 with \<^verbatim>\<open>success:true\<close> and the
  message \<^verbatim>\<open>"No records yet (provider is restarting)"\<close>; for an unknown provider it
  is 404.
\<close>

theorem get_marks_of_current_record:
  "(getCurrentIngestionRecord m p s = Resolved (Some r) \<and>
    getAllMarks m (record_id r) s = Resolved mks \<longrightarrow>
      resp_status (fst (get_marks m p s)) = Some 200 \<and>
      field (resp_body (fst (get_marks m p s))) ''success'' = JBool True \<and>
      field (resp_body (fst (get_marks m p s))) ''records'' = mks \<and>
      (ascending_by_sequence mks \<longrightarrow>
         ascending_by_sequence (field (resp_body (fst (get_marks m p s))) ''records''))) \<and>
   (getCurrentIngestionRecord m p s = Resolved None \<and> listProviders m s = Resolved ps \<and>
    p \<in> set ps \<longrightarrow>
      resp_status (fst (get_marks m p s)) = Some 200 \<and>
      field (resp_body (fst (get_marks m p s))) ''success'' = JBool True \<and>
      field (resp_body (fst (get_marks m p s))) ''message''
        = JStr ''No records yet (provider is restarting)'') \<and>
   (getCurrentIngestionRecord m p s = Resolved None \<and> listProviders m s = Resolved ps \<and>
    p \<notin> set ps \<longrightarrow>
      resp_status (fst (get_marks m p s)) = Some 404 \<and>
      field (resp_body (fst (get_marks m p s))) ''success'' = JBool False)"
proof (intro conjI impI)
  assume a: "getCurrentIngestionRecord m p s = Resolved (Some r) \<and>
    getAllMarks m (record_id r) s = Resolved mks"
  then have run: "get_marks m p s =
      (json 200 (JObj [(''success'', JBool True), (''records'', mks)]), s)"
    by (simp add: get_marks_def)
  show "resp_status (fst (get_marks m p s)) = Some 200"
    and "field (resp_body (fst (get_marks m p s))) ''success'' = JBool True"
    and rec: "field (resp_body (fst (get_marks m p s))) ''records'' = mks"
    by (simp_all add: run reply_simps)
  assume "ascending_by_sequence mks"
  then show "ascending_by_sequence (field (resp_body (fst (get_marks m p s))) ''records'')"
    by (simp only: rec)
next
  assume a: "getCurrentIngestionRecord m p s = Resolved None \<and> listProviders m s = Resolved ps \<and>
    p \<in> set ps"
  then show "resp_status (fst (get_marks m p s)) = Some 200"
    and "field (resp_body (fst (get_marks m p s))) ''success'' = JBool True"
    and "field (resp_body (fst (get_marks m p s))) ''message''
        = JStr ''No records yet (provider is restarting)''"
    by (simp_all add: get_marks_def reply_simps)
next
  assume a: "getCurrentIngestionRecord m p s = Resolved None \<and> listProviders m s = Resolved ps \<and>
    p \<notin> set ps"
  then show "resp_status (fst (get_marks m p s)) = Some 404"
    and "field (resp_body (fst (get_marks m p s))) ''success'' = JBool False"
    by (simp_all add: get_marks_def reply_simps)
qed

theorem get_marks_of_current_record_witness:
  "(field (resp_body (fst (get_marks demo_manager ''foo'' 0))) ''records''
      = JArr [demo_mark 0, demo_mark 1] \<and>
    ascending_by_sequence (field (resp_body (fst (get_marks demo_manager ''foo'' 0))) ''records'') \<and>
    resp_status (fst (get_marks demo_manager ''foo'' 0)) = Some 200) \<and>
   (field (resp_body (fst (get_marks demo_manager ''bar'' 0))) ''message''
      = JStr ''No records yet (provider is restarting)'' \<and>
    resp_status (fst (get_marks demo_manager ''bar'' 0)) = Some 200) \<and>
   resp_status (fst (get_marks demo_manager ''ghost'' 0)) = Some 404"
proof -
  have mk: "demo_marks ''1'' = JArr [demo_mark 0, demo_mark 1]"
    by (simp add: demo_marks_def)
  from get_marks_of_current_record[where m = demo_manager and p = "''foo''" and s = 0
      and r = "sample_record ''1'' ''foo'' ''ingesting''" and mks = "demo_marks ''1''"]
  have 1: "field (resp_body (fst (get_marks demo_manager ''foo'' 0))) ''records''
      = JArr [demo_mark 0, demo_mark 1] \<and>
    ascending_by_sequence (field (resp_body (fst (get_marks demo_manager ''foo'' 0))) ''records'') \<and>
    resp_status (fst (get_marks demo_manager ''foo'' 0)) = Some 200"
    using demo_marks_ascending
    by (simp add: demo_current_foo sample_record_sel demo_getAllMarks mk)
  have known: "''bar'' \<in> set [''foo'', ''bar'', ''qux'']" by simp
  have unknown: "''ghost'' \<notin> set [''foo'', ''bar'', ''qux'']" by simp
  from get_marks_of_current_record[where m = demo_manager and p = "''bar''" and s = 0
      and ps = "[''foo'', ''bar'', ''qux'']"] known
  have 2: "field (resp_body (fst (get_marks demo_manager ''bar'' 0))) ''message''
      = JStr ''No records yet (provider is restarting)'' \<and>
    resp_status (fst (get_marks demo_manager ''bar'' 0)) = Some 200"
    using demo_current_bar[of 0] demo_listProviders[of 0] by blast
  from get_marks_of_current_record[where m = demo_manager and p = "''ghost''" and s = 0
      and ps = "[''foo'', ''bar'', ''qux'']"] unknown
  have 3: "resp_status (fst (get_marks demo_manager ''ghost'' 0)) = Some 404"
    using demo_current_ghost[of 0] demo_listProviders[of 0] by blast
  from 1 2 3 show ?thesis by blast
qed

subsection \<open>DELETE /{provider}/marks\<close>

lemma delete_marks_reply:
  "fst (clearFinishedIngestions m p s) = Resolved d \<Longrightarrow>
     resp_status (fst (delete_marks (spy m) p (s, []))) = Some 200 \<and>
     field (resp_body (fst (delete_marks (spy m) p (s, [])))) ''success'' = JBool True \<and>
     field (resp_body (fst (delete_marks (spy m) p (s, [])))) ''deletions'' = d"
  by (simp add: delete_marks_def spy_simps reply_simps)

lemma delete_marks_never_404:
  "resp_status (fst (delete_marks (spy m) p (s, []))) \<noteq> Some 404"
  by (simp add: delete_marks_def spy_simps reply_simps split: result.splits)

lemma delete_marks_calls:
  "snd (delete_marks (spy m) p (s, []))
     = (snd (clearFinishedIngestions m p s), [Call_clearFinishedIngestions p])"
  by (simp add: delete_marks_def spy_simps split: result.splits)

lemma delete_marks_cong:
  "clearFinishedIngestions m' p s = clearFinishedIngestions m p s \<Longrightarrow>
     delete_marks m' p s = delete_marks m p s"
  by (simp add: delete_marks_def)

text \<open>
  Claim C9. For every provider name, \<^verbatim>\<open>DELETE /{provider}/marks\<close> calls
  \<^verbatim>\<open>clearFinishedIngestions\<close> and nothing else that changes the store; when the call
  resolves, the answer is 200 with \<^verbatim>\<open>success:true\<close> and \<^verbatim>\<open>deletions\<close> the value
  returned. The status is never 404, and the outcome does not depend on what the
  manager knows about the provider: two managers that agree on
  \<^verbatim>\<open>clearFinishedIngestions\<close> give the same outcome.
\<close>

theorem delete_marks_has_no_not_found:
  "(fst (clearFinishedIngestions m p s) = Resolved d \<longrightarrow>
      resp_status (fst (delete_marks (spy m) p (s, []))) = Some 200 \<and>
      field (resp_body (fst (delete_marks (spy m) p (s, [])))) ''success'' = JBool True \<and>
      field (resp_body (fst (delete_marks (spy m) p (s, [])))) ''deletions'' = d) \<and>
   resp_status (fst (delete_marks (spy m) p (s, []))) \<noteq> Some 404 \<and>
   snd (delete_marks (spy m) p (s, []))
     = (snd (clearFinishedIngestions m p s), [Call_clearFinishedIngestions p]) \<and>
   (clearFinishedIngestions m' p s = clearFinishedIngestions m p s \<longrightarrow>
      delete_marks m' p s = delete_marks m p s)"
  using delete_marks_reply[of m p s d] delete_marks_never_404[of m p s]
    delete_marks_calls[of m p s] delete_marks_cong[of m' p s m]
  by blast

theorem delete_marks_has_no_not_found_witness:
  "resp_status (fst (delete_marks (spy demo_manager) ''ghost'' (0, []))) = Some 200 \<and>
   field (resp_body (fst (delete_marks (spy demo_manager) ''ghost'' (0, [])))) ''success'' = JBool True \<and>
   field (resp_body (fst (delete_marks (spy demo_manager) ''ghost'' (0, [])))) ''deletions'' = JNum 0 \<and>
   delete_marks (stub_manager [] [] demo_marks) ''ghost'' 0 = delete_marks demo_manager ''ghost'' 0"
proof -
  have d: "fst (clearFinishedIngestions demo_manager ''ghost'' 0) = Resolved (JNum 0)"
    by (simp add: demo_writes)
  have same: "clearFinishedIngestions (stub_manager [] [] demo_marks) ''ghost'' 0
      = clearFinishedIngestions demo_manager ''ghost'' 0"
    by (simp add: demo_manager_def stub_manager_def)
  from delete_marks_has_no_not_found[where m = demo_manager and p = "''ghost''" and s = 0
      and d = "JNum 0" and m' = "stub_manager [] [] demo_marks"] d same
  show ?thesis by blast
qed

subsection \<open>Unknown providers\<close>

lemma handlers_unknown:
  assumes "getCurrentIngestionRecord m p s = Resolved None" "listProviders m s = Resolved ps"
    "p \<notin> set ps"
  shows "resp_status (fst (get_provider (spy m) p (s, []))) = Some 404"
    and "snd (get_provider (spy m) p (s, [])) = (s, [])"
    and "resp_status (fst (post_trigger (spy m) p (s, []))) = Some 404"
    and "snd (post_trigger (spy m) p (s, [])) = (s, [])"
    and "resp_status (fst (post_start (spy m) p (s, []))) = Some 404"
    and "snd (post_start (spy m) p (s, [])) = (s, [])"
    and "resp_status (fst (post_cancel (spy m) now p (s, []))) = Some 404"
    and "snd (post_cancel (spy m) now p (s, [])) = (s, [])"
    and "resp_status (fst (get_marks (spy m) p (s, []))) = Some 404"
    and "snd (get_marks (spy m) p (s, [])) = (s, [])"
  using assms
  by (simp_all add: get_provider_def post_trigger_def post_start_def post_cancel_def
      get_marks_def spy_simps reply_simps)

lemma on_db_unchanged:
  "resp_status (fst (h w)) = c \<Longrightarrow> snd (h w) = w \<Longrightarrow>
     resp_status (fst (on_db h (w, bus))) = c \<and> snd (on_db h (w, bus)) = (w, bus)"
  by (cases "h w") (simp add: on_db_def)

text \<open>
  Claim C10. For a provider with no current record that is not among
  \<^verbatim>\<open>listProviders()\<close>, each of \<^verbatim>\<open>GET /{provider}\<close>, \<^verbatim>\<open>POST /{provider}/trigger\<close>,
  \<^verbatim>\<open>POST /{provider}/start\<close>, \<^verbatim>\<open>POST /{provider}/cancel\<close> and
  \<^verbatim>\<open>GET /{provider}/marks\<close> answers 404, makes no changing call on the manager and
  leaves the store and the event bus as they were.
\<close>

theorem unknown_provider_changes_nothing:
  assumes "manager R = spy m"
    and "getCurrentIngestionRecord m p s = Resolved None"
    and "listProviders m s = Resolved ps"
    and "p \<notin> set ps"
    and "req \<in> set [GET_provider p, POST_trigger p, POST_start p, POST_cancel p, GET_marks p]"
  shows "resp_status (fst (createRouter str now R req ((s, []), bus))) = Some 404 \<and>
     snd (createRouter str now R req ((s, []), bus)) = ((s, []), bus)"
proof -
  note u = handlers_unknown[OF assms(2-4)]
  from assms(5) consider "req = GET_provider p" | "req = POST_trigger p" | "req = POST_start p"
    | "req = POST_cancel p" | "req = GET_marks p" by auto
  then show ?thesis
  proof cases
    case 1
    then show ?thesis using on_db_unchanged[where h = "get_provider (spy m) p" and w = "(s, [])", OF u(1) u(2)] by (simp add: assms(1))
  next
    case 2
    then show ?thesis using on_db_unchanged[where h = "post_trigger (spy m) p" and w = "(s, [])", OF u(3) u(4)] by (simp add: assms(1))
  next
    case 3
    then show ?thesis using on_db_unchanged[where h = "post_start (spy m) p" and w = "(s, [])", OF u(5) u(6)] by (simp add: assms(1))
  next
    case 4
    then show ?thesis using on_db_unchanged[where h = "post_cancel (spy m) now p" and w = "(s, [])", OF u(7) u(8)] by (simp add: assms(1))
  next
    case 5
    then show ?thesis using on_db_unchanged[where h = "get_marks (spy m) p" and w = "(s, [])", OF u(9) u(10)] by (simp add: assms(1))
  qed
qed

theorem unknown_provider_changes_nothing_witness:
  "(resp_status (fst (createRouter error_toString demo_clock (new_router (spy demo_manager))
        (GET_provider ''ghost'') ((0, []), ()))) = Some 404 \<and>
    snd (createRouter error_toString demo_clock (new_router (spy demo_manager))
        (GET_provider ''ghost'') ((0, []), ())) = ((0, []), ())) \<and>
   (resp_status (fst (createRouter error_toString demo_clock (new_router (spy demo_manager))
        (POST_trigger ''ghost'') ((0, []), ()))) = Some 404 \<and>
    snd (createRouter error_toString demo_clock (new_router (spy demo_manager))
        (POST_trigger ''ghost'') ((0, []), ())) = ((0, []), ())) \<and>
   (resp_status (fst (createRouter error_toString demo_clock (new_router (spy demo_manager))
        (POST_start ''ghost'') ((0, []), ()))) = Some 404 \<and>
    snd (createRouter error_toString demo_clock (new_router (spy demo_manager))
        (POST_start ''ghost'') ((0, []), ())) = ((0, []), ())) \<and>
   (resp_status (fst (createRouter error_toString demo_clock (new_router (spy demo_manager))
        (POST_cancel ''ghost'') ((0, []), ()))) = Some 404 \<and>
    snd (createRouter error_toString demo_clock (new_router (spy demo_manager))
        (POST_cancel ''ghost'') ((0, []), ())) = ((0, []), ())) \<and>
   (resp_status (fst (createRouter error_toString demo_clock (new_router (spy demo_manager))
        (GET_marks ''ghost'') ((0, []), ()))) = Some 404 \<and>
    snd (createRouter error_toString demo_clock (new_router (spy demo_manager))
        (GET_marks ''ghost'') ((0, []), ())) = ((0, []), ()))"
proof -
  have r: "manager (new_router (spy demo_manager) :: (nat \<times> call list, unit) router) = spy demo_manager"
    by (simp add: new_router_def)
  have unknown: "''ghost'' \<notin> set [''foo'', ''bar'', ''qux'']" by simp
  note w = unknown_provider_changes_nothing[OF r demo_current_ghost demo_listProviders unknown,
      where str = error_toString and now = demo_clock and bus = "()"]
  have 1: "GET_provider ''ghost'' \<in> set [GET_provider ''ghost'', POST_trigger ''ghost'',
      POST_start ''ghost'', POST_cancel ''ghost'', GET_marks ''ghost'']" by simp
  have 2: "POST_trigger ''ghost'' \<in> set [GET_provider ''ghost'', POST_trigger ''ghost'',
      POST_start ''ghost'', POST_cancel ''ghost'', GET_marks ''ghost'']" by simp
  have 3: "POST_start ''ghost'' \<in> set [GET_provider ''ghost'', POST_trigger ''ghost'',
      POST_start ''ghost'', POST_cancel ''ghost'', GET_marks ''ghost'']" by simp
  have 4: "POST_cancel ''ghost'' \<in> set [GET_provider ''ghost'', POST_trigger ''ghost'',
      POST_start ''ghost'', POST_cancel ''ghost'', GET_marks ''ghost'']" by simp
  have 5: "GET_marks ''ghost'' \<in> set [GET_provider ''ghost'', POST_trigger ''ghost'',
      POST_start ''ghost'', POST_cancel ''ghost'', GET_marks ''ghost'']" by simp
  from w[OF 1] w[OF 2] w[OF 3] w[OF 4] w[OF 5] show ?thesis by blast
qed

end
